theory Spec2Isabelle
  imports Complex_Main "HOL-Library.Sublist"
begin

section \<open>JavaScript values reaching the bridge\<close>

text \<open>
  A JavaScript number is a NaN, an infinity or a finite value. Finite doubles are
  embedded in the reals (negative zero is identified with zero; no claim below depends
  on rounding). Comparisons follow the language: every ordering comparison with NaN
  is false.
\<close>

datatype jsnum = NaN | PosInf | NegInf | Finite real

fun js_lt :: "jsnum \<Rightarrow> jsnum \<Rightarrow> bool" where
  "js_lt (Finite a) (Finite b) = (a < b)"
| "js_lt NaN _ = False"
| "js_lt _ NaN = False"
| "js_lt NegInf NegInf = False"
| "js_lt NegInf _ = True"
| "js_lt _ NegInf = False"
| "js_lt PosInf _ = False"
| "js_lt _ PosInf = True"

fun js_le :: "jsnum \<Rightarrow> jsnum \<Rightarrow> bool" where
  "js_le (Finite a) (Finite b) = (a \<le> b)"
| "js_le NaN _ = False"
| "js_le _ NaN = False"
| "js_le NegInf _ = True"
| "js_le _ NegInf = False"
| "js_le _ PosInf = True"
| "js_le PosInf _ = False"

text \<open>\<^verbatim>\<open>Math.ceil\<close>: NaN and the infinities are returned as they are.\<close>

fun Math_ceil :: "jsnum \<Rightarrow> jsnum" where
  "Math_ceil (Finite x) = Finite (of_int \<lceil>x\<rceil>)"
| "Math_ceil n = n"

text \<open>
  The data of a message event is any structured-cloneable value. An object (an array is
  one too, for \<^verbatim>\<open>typeof\<close>) is given by its own properties; the code below only reads
  named properties of values it has already checked to be non-null objects.
\<close>

datatype jsval =
    JUndefined
  | JNull
  | JBool bool
  | JNum jsnum
  | JStr string
  | JObj "(string \<times> jsval) list"

datatype js_type = TUndefined | TObject | TBoolean | TNumber | TString

fun typeof :: "jsval \<Rightarrow> js_type" where
  "typeof JUndefined = TUndefined"
| "typeof JNull = TObject"
| "typeof (JBool _) = TBoolean"
| "typeof (JNum _) = TNumber"
| "typeof (JStr _) = TString"
| "typeof (JObj _) = TObject"

text \<open>Property read \<^verbatim>\<open>v.k\<close>; a property that is absent reads as \<^verbatim>\<open>undefined\<close>.\<close>

fun getProp :: "jsval \<Rightarrow> string \<Rightarrow> jsval" where
  "getProp (JObj ps) k = (case map_of ps k of Some v \<Rightarrow> v | None \<Rightarrow> JUndefined)"
| "getProp _ k = JUndefined"

section \<open>Constants and the message codec\<close>

definition PROTOCOL_VERSION :: jsnum where
  "PROTOCOL_VERSION = Finite 1"

definition MESSAGE_PREFIX :: string where
  "MESSAGE_PREFIX = ''venyu:''"

record EmbedMessage =
  msg_type :: string
  msg_version :: jsnum
  msg_requestId :: string
  msg_timestamp :: jsnum
  msg_nonce :: string
  msg_payload :: jsval

text \<open>
  \<^verbatim>\<open>validateIncomingMessage\<close> returns its argument, retyped, or \<^verbatim>\<open>null\<close>. The record
  holds the six fields the bridge reads from the accepted object.
\<close>

definition validateIncomingMessage :: "jsval \<Rightarrow> EmbedMessage option" where
  "validateIncomingMessage data =
    (if typeof data \<noteq> TObject \<or> data = JNull then None
     else case getProp data ''type'' of
       JStr ty \<Rightarrow>
        (if \<not> prefix MESSAGE_PREFIX ty then None
         else if getProp data ''version'' \<noteq> JNum PROTOCOL_VERSION then None
         else case getProp data ''requestId'' of
           JStr rid \<Rightarrow>
            (if length rid = 0 then None
             else case getProp data ''nonce'' of
               JStr n \<Rightarrow>
                (if length n = 0 then None
                 else case getProp data ''timestamp'' of
                   JNum ts \<Rightarrow>
                    (if js_le ts (Finite 0) then None
                     else if typeof (getProp data ''payload'') \<noteq> TObject
                             \<or> getProp data ''payload'' = JNull then None
                     else Some \<lparr> msg_type = ty, msg_version = PROTOCOL_VERSION,
                                 msg_requestId = rid, msg_timestamp = ts, msg_nonce = n,
                                 msg_payload = getProp data ''payload'' \<rparr>)
                 | _ \<Rightarrow> None)
             | _ \<Rightarrow> None)
         | _ \<Rightarrow> None)
     | _ \<Rightarrow> None)"

section \<open>The bridge: configuration, host and session state\<close>

text \<open>Windows (the frame's content window, popups) are identified by numbers.\<close>

type_synonym win = nat

record MessageEvent =
  ev_origin :: string
  ev_source :: "win option"
  ev_data :: jsval

record MessagingConfig =
  playUrl :: string
  config_locale :: string
  config_theme :: jsval
  embedSessionId :: string

text \<open>The constants a bridge closes over: its configuration and \<^verbatim>\<open>expectedOrigin\<close>.\<close>

record bridge_consts = MessagingConfig +
  expectedOrigin :: string

text \<open>
  What the host page answers when a handler runs. \<open>URL_origin s\<close> is
  \<^verbatim>\<open>new URL(s).origin\<close>, \<open>None\<close> when the constructor throws; \<open>contentWindow\<close> is
  \<^verbatim>\<open>iframe.contentWindow\<close> (\<open>None\<close> for \<^verbatim>\<open>null\<close>); \<open>window_open\<close> is what
  \<^verbatim>\<open>window.open\<close> returns if it is called (\<open>None\<close> when the popup is blocked). The
  request identifier and the clock are the host's too: \<^verbatim>\<open>generateRequestId()\<close> and
  \<^verbatim>\<open>Date.now()\<close>, each called at most once per handler run.
\<close>

record host =
  URL_origin :: "string \<Rightarrow> string option"
  location_origin :: string
  contentWindow :: "win option"
  generateRequestId :: string
  Date_now :: jsnum
  window_open :: "win option"
  getPopupFeatures :: string

datatype promise = Pending | Resolved | Rejected string

text \<open>The value of \<^verbatim>\<open>iframe.style.height\<close>: \<open>Px n\<close> is the template \<^verbatim>\<open>`${n}px`\<close>.\<close>

datatype css_height = CssText string | Px jsnum

text \<open>
  Everything a handler does to the outside is appended to a log: messages posted to the
  frame, consumer callbacks (\<^verbatim>\<open>callbacks.onX?.(...)\<close>), \<^verbatim>\<open>window.open\<close> with the URL
  path, the search parameters set on it, the window name and the features,
  \<^verbatim>\<open>popup.close()\<close>, \<^verbatim>\<open>scrollIntoView\<close>, listener registration and removal, and an
  exception that leaves the handler.
\<close>

datatype effect =
    PostMessage win EmbedMessage string
  | OnReady
  | OnBooked string string
  | OnAuthFallbackRequired string
  | OnError string
  | WindowOpen string "(string \<times> string) list" string string
  | PopupClose win
  | ScrollIntoView
  | AddEventListener
  | RemoveEventListener
  | Uncaught string

text \<open>
  The first four fields are \<^verbatim>\<open>MessagingState\<close>. \<open>popupPollIntervalId = Some p\<close> is a running
  interval whose callback closes over popup \<open>p\<close>. \<open>closedWindows\<close> holds the windows whose
  \<^verbatim>\<open>closed\<close> property reads true.
\<close>

record bridge_state =
  nonce :: "string option"
  popup :: "win option"
  handshakeComplete :: bool
  destroyed :: bool
  popupPollIntervalId :: "win option"
  readyPromise :: promise
  closedWindows :: "win set"
  iframe_style_height :: css_height
  effects :: "effect list"

definition extractOrigin :: "host \<Rightarrow> string \<Rightarrow> string" where
  "extractOrigin h url = (case URL_origin h url of Some org \<Rightarrow> org | None \<Rightarrow> url)"

definition buildMessage :: "host \<Rightarrow> string \<Rightarrow> jsval \<Rightarrow> string \<Rightarrow> EmbedMessage" where
  "buildMessage h ty payload n =
     \<lparr> msg_type = ty, msg_version = PROTOCOL_VERSION, msg_requestId = generateRequestId h,
       msg_timestamp = Date_now h, msg_nonce = n, msg_payload = payload \<rparr>"

definition createMessagingBridge ::
  "host \<Rightarrow> MessagingConfig \<Rightarrow> win set \<Rightarrow> css_height \<Rightarrow> bridge_consts \<times> bridge_state" where
  "createMessagingBridge h cfg closedWins height =
     (\<lparr> playUrl = playUrl cfg, config_locale = config_locale cfg,
         config_theme = config_theme cfg, embedSessionId = embedSessionId cfg,
         expectedOrigin = extractOrigin h (playUrl cfg) \<rparr>,
      \<lparr> nonce = None, popup = None, handshakeComplete = False, destroyed = False,
         popupPollIntervalId = None, readyPromise = Pending, closedWindows = closedWins,
         iframe_style_height = height, effects = [AddEventListener] \<rparr>)"

text \<open>A promise keeps its first settlement.\<close>

definition resolveReady :: "bridge_state \<Rightarrow> bridge_state" where
  "resolveReady st = (if readyPromise st = Pending then st\<lparr>readyPromise := Resolved\<rparr> else st)"

definition rejectReady :: "string \<Rightarrow> bridge_state \<Rightarrow> bridge_state" where
  "rejectReady reason st =
     (if readyPromise st = Pending then st\<lparr>readyPromise := Rejected reason\<rparr> else st)"

definition emit :: "effect list \<Rightarrow> bridge_state \<Rightarrow> bridge_state" where
  "emit es st = st\<lparr>effects := effects st @ es\<rparr>"

definition sendToIframe :: "bridge_consts \<Rightarrow> host \<Rightarrow> string \<Rightarrow> jsval \<Rightarrow> bridge_state \<Rightarrow> bridge_state" where
  "sendToIframe c h ty payload st =
     (if destroyed st then st
      else case nonce st of
        None \<Rightarrow> st
      | Some n \<Rightarrow>
         (if n = [] then st
          else case contentWindow h of
            None \<Rightarrow> st
          | Some w \<Rightarrow> emit [PostMessage w (buildMessage h ty payload n) (expectedOrigin c)] st))"

definition clearPopupPoll :: "bridge_state \<Rightarrow> bridge_state" where
  "clearPopupPoll st = st\<lparr>popupPollIntervalId := None\<rparr>"

text \<open>\<^verbatim>\<open>if (state.popup && !state.popup.closed) state.popup.close()\<close>, written three times
  in the source.\<close>

definition closeOpenPopup :: "bridge_state \<Rightarrow> bridge_state" where
  "closeOpenPopup st =
     (case popup st of
        None \<Rightarrow> st
      | Some p \<Rightarrow>
         (if p \<in> closedWindows st then st
          else emit [PopupClose p] (st\<lparr>closedWindows := insert p (closedWindows st)\<rparr>)))"

definition popupSearchParams :: "bridge_consts \<Rightarrow> host \<Rightarrow> bridge_state \<Rightarrow> (string \<times> string) list" where
  "popupSearchParams c h st =
     [(''parentOrigin'', location_origin h)]
     @ (case nonce st of None \<Rightarrow> [] | Some n \<Rightarrow> (if n = [] then [] else [(''nonce'', n)]))
     @ [(''embedSessionId'', embedSessionId c)]"

definition openAuthPopup :: "bridge_consts \<Rightarrow> host \<Rightarrow> bridge_state \<Rightarrow> bridge_state" where
  "openAuthPopup c h st =
     (if destroyed st then st
      else let st1 = closeOpenPopup (clearPopupPoll st) in
        case URL_origin h (playUrl c @ ''/embed/auth/popup'') of
          None \<Rightarrow> emit [Uncaught ''TypeError: Invalid URL''] st1
        | Some _ \<Rightarrow>
           (let st2 = emit [WindowOpen (playUrl c @ ''/embed/auth/popup'')
                              (popupSearchParams c h st1) ''venyu-auth'' (getPopupFeatures h)] st1
            in case window_open h of
                 None \<Rightarrow>
                   emit [OnError ''Auth popup was blocked by the browser'']
                     (sendToIframe c h ''venyu:auth:popup-result''
                        (JObj [(''resultToken'', JStr ''''), (''error'', JStr ''popup_blocked'')]) st2)
               | Some p \<Rightarrow> st2\<lparr>popup := Some p, popupPollIntervalId := Some p\<rparr>))"

text \<open>The interval callback installed by \<^verbatim>\<open>openAuthPopup\<close>.\<close>

definition popupPollTick :: "bridge_state \<Rightarrow> bridge_state" where
  "popupPollTick st =
     (case popupPollIntervalId st of
        None \<Rightarrow> st
      | Some p \<Rightarrow> (if p \<in> closedWindows st then (clearPopupPoll st)\<lparr>popup := None\<rparr> else st))"

text \<open>
  The frame is an \<^verbatim>\<open>HTMLIFrameElement\<close>, so \<^verbatim>\<open>iframe.style.height = v\<close> goes through the
  host's CSSOM setter, which keeps the prior value when \<^verbatim>\<open>v\<close> is not a valid length for
  the property. The bridge only assigns the template \<^verbatim>\<open>`${n}px`\<close>, which is a valid height
  exactly when \<open>n\<close> is finite (NaN and the infinities print as \<^verbatim>\<open>NaN\<close>, \<^verbatim>\<open>Infinity\<close> and
  \<^verbatim>\<open>-Infinity\<close>) and not negative.
\<close>

definition validHeightPx :: "jsnum \<Rightarrow> bool" where
  "validHeightPx n = (case n of Finite x \<Rightarrow> 0 \<le> x | _ \<Rightarrow> False)"

definition set_style_height_px :: "jsnum \<Rightarrow> bridge_state \<Rightarrow> bridge_state" where
  "set_style_height_px n st = (if validHeightPx n then st\<lparr>iframe_style_height := Px n\<rparr> else st)"

definition handleResize :: "jsval \<Rightarrow> bridge_state \<Rightarrow> bridge_state" where
  "handleResize height st =
     (if destroyed st then st
      else case height of
        JNum n \<Rightarrow> (if js_lt n (Finite 0) then st
                   else set_style_height_px (Math_ceil n) st)
      | _ \<Rightarrow> st)"

text \<open>\<^verbatim>\<open>theme ?? {}\<close>\<close>

definition themeOrEmpty :: "jsval \<Rightarrow> jsval" where
  "themeOrEmpty t = (if t = JNull \<or> t = JUndefined then JObj [] else t)"

definition initPayload :: "bridge_consts \<Rightarrow> string \<Rightarrow> jsval" where
  "initPayload c n =
     JObj [(''nonce'', JStr n), (''locale'', JStr (config_locale c)),
           (''theme'', themeOrEmpty (config_theme c))]"

definition handleReadyMessage :: "bridge_consts \<Rightarrow> host \<Rightarrow> EmbedMessage \<Rightarrow> bridge_state \<Rightarrow> bridge_state" where
  "handleReadyMessage c h m st =
     (if handshakeComplete st then st
      else let st1 = st\<lparr>handshakeComplete := True, nonce := Some (msg_nonce m)\<rparr> in
        case contentWindow h of
          None \<Rightarrow>
            rejectReady ''Iframe contentWindow is not available''
              (emit [OnError ''Iframe contentWindow is not available''] st1)
        | Some w \<Rightarrow>
            resolveReady
              (emit [PostMessage w
                       (buildMessage h ''venyu:init'' (initPayload c (msg_nonce m)) (msg_nonce m))
                       (expectedOrigin c),
                     OnReady] st1))"

definition handlePopupMessage :: "bridge_consts \<Rightarrow> host \<Rightarrow> EmbedMessage \<Rightarrow> bridge_state \<Rightarrow> bridge_state" where
  "handlePopupMessage c h m st =
     (let st1 = (case getProp (msg_payload m) ''resultToken'' of
                   JStr tok \<Rightarrow>
                     (if length tok > 0
                      then sendToIframe c h ''venyu:auth:popup-result''
                             (JObj [(''resultToken'', JStr tok)]) st
                      else st)
                 | _ \<Rightarrow> st)
      in (closeOpenPopup (clearPopupPoll st1))\<lparr>popup := None\<rparr>)"

text \<open>Step 7 of \<^verbatim>\<open>handleMessage\<close>: the \<^verbatim>\<open>switch\<close> on the message type.\<close>

definition routeByType :: "bridge_consts \<Rightarrow> host \<Rightarrow> EmbedMessage \<Rightarrow> bridge_state \<Rightarrow> bridge_state" where
  "routeByType c h m st =
     (if msg_type m = ''venyu:resize'' then
        (case getProp (msg_payload m) ''height'' of
           JNum n \<Rightarrow> handleResize (JNum n) st
         | _ \<Rightarrow> st)
      else if msg_type m = ''venyu:booked'' then
        (case getProp (msg_payload m) ''bookingId'' of
           JStr b \<Rightarrow>
             (case getProp (msg_payload m) ''status'' of
                JStr s \<Rightarrow> emit [OnBooked b s] st
              | _ \<Rightarrow> st)
         | _ \<Rightarrow> st)
      else if msg_type m = ''venyu:auth:open-popup'' then openAuthPopup c h st
      else if msg_type m = ''venyu:auth:fallback-required'' then
        (case getProp (msg_payload m) ''reason'' of
           JStr r \<Rightarrow> emit [OnAuthFallbackRequired r] st
         | _ \<Rightarrow> st)
      else if msg_type m = ''venyu:navigate'' then emit [ScrollIntoView] st
      else st)"

definition isFromIframe :: "host \<Rightarrow> MessageEvent \<Rightarrow> bool" where
  "isFromIframe h ev = (ev_source ev = contentWindow h)"

definition isFromPopup :: "bridge_state \<Rightarrow> MessageEvent \<Rightarrow> bool" where
  "isFromPopup st ev =
     (case popup st of
        None \<Rightarrow> False
      | Some p \<Rightarrow> p \<notin> closedWindows st \<and> ev_source ev = Some p)"

text \<open>\<^verbatim>\<open>!state.nonce\<close>: the nonce is \<^verbatim>\<open>null\<close> or the empty string.\<close>

definition noNonce :: "bridge_state \<Rightarrow> bool" where
  "noNonce st = (case nonce st of None \<Rightarrow> True | Some n \<Rightarrow> n = [])"

definition handleMessage :: "bridge_consts \<Rightarrow> host \<Rightarrow> MessageEvent \<Rightarrow> bridge_state \<Rightarrow> bridge_state" where
  "handleMessage c h ev st =
     (if destroyed st then st
      else if ev_origin ev \<noteq> expectedOrigin c then st
      else if \<not> isFromIframe h ev \<and> \<not> isFromPopup st ev then st
      else case validateIncomingMessage (ev_data ev) of
        None \<Rightarrow> st
      | Some m \<Rightarrow>
         (if isFromPopup st ev then
            (if msg_type m \<noteq> ''venyu:auth:popup-result'' then st
             else if noNonce st \<or> Some (msg_nonce m) \<noteq> nonce st then st
             else handlePopupMessage c h m st)
          else if msg_type m = ''venyu:ready'' then handleReadyMessage c h m st
          else if \<not> handshakeComplete st \<or> Some (msg_nonce m) \<noteq> nonce st then st
          else routeByType c h m st))"

definition sendConfigUpdate ::
  "bridge_consts \<Rightarrow> host \<Rightarrow> string option \<Rightarrow> jsval option \<Rightarrow> bridge_state \<Rightarrow> bridge_state" where
  "sendConfigUpdate c h loc tm st =
     (if destroyed st then st
      else if \<not> handshakeComplete st then st
      else sendToIframe c h ''venyu:config:update''
             (JObj ((case loc of None \<Rightarrow> [] | Some l \<Rightarrow> [(''locale'', JStr l)])
                    @ (case tm of None \<Rightarrow> [] | Some t \<Rightarrow> [(''theme'', t)]))) st)"

definition destroy :: "bridge_state \<Rightarrow> bridge_state" where
  "destroy st =
     (if destroyed st then st
      else rejectReady ''Embed widget was destroyed before ready''
             ((closeOpenPopup (clearPopupPoll (emit [RemoveEventListener] (st\<lparr>destroyed := True\<rparr>))))
                \<lparr>popup := None\<rparr>))"

subsection \<open>Runs of the bridge\<close>

text \<open>
  Everything that can happen to a bridge on the host's single thread: a message event is
  delivered, the consumer calls \<^verbatim>\<open>destroy\<close> or \<^verbatim>\<open>sendConfigUpdate\<close>, the poll interval
  fires, or a window is closed from outside.
\<close>

datatype input =
    Message host MessageEvent
  | Destroy
  | ConfigUpdate host "string option" "jsval option"
  | PollTick
  | WindowClosed win

fun step :: "bridge_consts \<Rightarrow> bridge_state \<Rightarrow> input \<Rightarrow> bridge_state" where
  "step c st (Message h ev) = handleMessage c h ev st"
| "step c st Destroy = destroy st"
| "step c st (ConfigUpdate h loc tm) = sendConfigUpdate c h loc tm st"
| "step c st PollTick = popupPollTick st"
| "step c st (WindowClosed w) = st\<lparr>closedWindows := insert w (closedWindows st)\<rparr>"

definition run :: "bridge_consts \<Rightarrow> bridge_state \<Rightarrow> input list \<Rightarrow> bridge_state" where
  "run c st ins = foldl (step c) st ins"

section \<open>The specification's wording\<close>

text \<open>
  The predicates below follow the words of the specification, not the code: what it calls
  a structurally valid message, a malformed one, a non-negative number, a ready signal and a
  message accepted as coming from the frame.
\<close>

fun positiveNumber :: "jsval \<Rightarrow> bool" where
  "positiveNumber (JNum (Finite x)) = (0 < x)"
| "positiveNumber (JNum PosInf) = True"
| "positiveNumber _ = False"

fun nonEmptyString :: "jsval \<Rightarrow> bool" where
  "nonEmptyString (JStr s) = (s \<noteq> [])"
| "nonEmptyString _ = False"

fun prefixedString :: "jsval \<Rightarrow> bool" where
  "prefixedString (JStr s) = prefix MESSAGE_PREFIX s"
| "prefixedString _ = False"

definition nonNullObject :: "jsval \<Rightarrow> bool" where
  "nonNullObject v = (typeof v = TObject \<and> v \<noteq> JNull)"

definition spec_structurally_valid :: "jsval \<Rightarrow> bool" where
  "spec_structurally_valid raw =
     (nonNullObject raw
      \<and> prefixedString (getProp raw ''type'')
      \<and> getProp raw ''version'' = JNum PROTOCOL_VERSION
      \<and> nonEmptyString (getProp raw ''requestId'')
      \<and> nonEmptyString (getProp raw ''nonce'')
      \<and> positiveNumber (getProp raw ''timestamp'')
      \<and> nonNullObject (getProp raw ''payload''))"

definition malformed :: "jsval \<Rightarrow> bool" where
  "malformed raw =
     (getProp raw ''version'' \<noteq> JNum PROTOCOL_VERSION
      \<or> typeof (getProp raw ''type'') \<noteq> TString
      \<or> typeof (getProp raw ''requestId'') \<noteq> TString
      \<or> typeof (getProp raw ''nonce'') \<noteq> TString
      \<or> typeof (getProp raw ''timestamp'') \<noteq> TNumber
      \<or> \<not> nonNullObject (getProp raw ''payload''))"

definition acceptedFromFrame :: "bridge_consts \<Rightarrow> bridge_state \<Rightarrow> host \<Rightarrow> MessageEvent \<Rightarrow> bool" where
  "acceptedFromFrame c st h ev =
     (\<not> destroyed st \<and> ev_origin ev = expectedOrigin c \<and> isFromIframe h ev \<and> \<not> isFromPopup st ev)"

definition readySignal :: "jsval \<Rightarrow> bool" where
  "readySignal raw =
     (case validateIncomingMessage raw of None \<Rightarrow> False | Some m \<Rightarrow> msg_type m = ''venyu:ready'')"

definition onReadyCalls :: "bridge_state \<Rightarrow> nat" where
  "onReadyCalls st = length (filter (\<lambda>e. e = OnReady) (effects st))"

definition promiseTracksState :: "bridge_state \<Rightarrow> bool" where
  "promiseTracksState st =
     ((\<not> handshakeComplete st \<and> \<not> destroyed st \<longrightarrow> readyPromise st = Pending)
      \<and> (destroyed st \<longrightarrow> readyPromise st \<noteq> Pending))"

definition nonNegativeNumber :: "jsval \<Rightarrow> bool" where
  "nonNegativeNumber v =
     (case v of JNum (Finite x) \<Rightarrow> 0 \<le> x | JNum PosInf \<Rightarrow> True | _ \<Rightarrow> False)"

definition finiteNonNegativeNumber :: "jsval \<Rightarrow> bool" where
  "finiteNonNegativeNumber v = (case v of JNum (Finite x) \<Rightarrow> 0 \<le> x | _ \<Rightarrow> False)"

section \<open>A concrete session\<close>

text \<open>
  One host page, one configuration and the messages of a short session; the general
  theorems are instantiated on them below.
\<close>

definition demoHost :: host where
  "demoHost =
     \<lparr> URL_origin = (\<lambda>s. if s = ''https://play.venyu.ch''
                              \<or> s = ''https://play.venyu.ch/embed/auth/popup''
                           then Some ''https://play.venyu.ch'' else None),
       location_origin = ''https://club.example'',
       contentWindow = Some 1,
       generateRequestId = ''0f8fad5b-d9cb-469f-a165-70867728950e'',
       Date_now = Finite 1700000000000,
       window_open = None,
       getPopupFeatures = ''width=480,height=640'' \<rparr>"

definition demoConfig :: MessagingConfig where
  "demoConfig =
     \<lparr> playUrl = ''https://play.venyu.ch'', config_locale = ''de'',
       config_theme = JObj [], embedSessionId = ''es_1'' \<rparr>"

definition demoConsts :: bridge_consts where
  "demoConsts = fst (createMessagingBridge demoHost demoConfig {} (CssText ''0px''))"

definition demoInitial :: bridge_state where
  "demoInitial = snd (createMessagingBridge demoHost demoConfig {} (CssText ''0px''))"

definition wire :: "string \<Rightarrow> string \<Rightarrow> jsval \<Rightarrow> jsval" where
  "wire ty n payload =
     JObj [(''type'', JStr ty), (''version'', JNum (Finite 1)), (''requestId'', JStr ''r-1''),
           (''timestamp'', JNum (Finite 1700000000000)), (''nonce'', JStr n),
           (''payload'', payload)]"

definition fromFrame :: "jsval \<Rightarrow> MessageEvent" where
  "fromFrame raw = \<lparr> ev_origin = ''https://play.venyu.ch'', ev_source = Some 1, ev_data = raw \<rparr>"

definition detachedHost :: host where
  "detachedHost = demoHost\<lparr>contentWindow := None\<rparr>"

definition fromNowhere :: "jsval \<Rightarrow> MessageEvent" where
  "fromNowhere raw = \<lparr> ev_origin = ''https://play.venyu.ch'', ev_source = None, ev_data = raw \<rparr>"

definition nanTimestampMessage :: jsval where
  "nanTimestampMessage =
     JObj [(''type'', JStr ''venyu:resize''), (''version'', JNum (Finite 1)),
           (''requestId'', JStr ''r-1''), (''timestamp'', JNum NaN), (''nonce'', JStr ''abc''),
           (''payload'', JObj [])]"

definition readyEvent :: MessageEvent where
  "readyEvent = fromFrame (wire ''venyu:ready'' ''abc'' (JObj []))"

definition readyMessage :: EmbedMessage where
  "readyMessage =
     \<lparr> msg_type = ''venyu:ready'', msg_version = Finite 1, msg_requestId = ''r-1'',
       msg_timestamp = Finite 1700000000000, msg_nonce = ''abc'', msg_payload = JObj [] \<rparr>"

definition initMessage :: EmbedMessage where
  "initMessage =
     \<lparr> msg_type = ''venyu:init'', msg_version = Finite 1,
       msg_requestId = ''0f8fad5b-d9cb-469f-a165-70867728950e'',
       msg_timestamp = Finite 1700000000000, msg_nonce = ''abc'',
       msg_payload = JObj [(''nonce'', JStr ''abc''), (''locale'', JStr ''de''),
                           (''theme'', JObj [])] \<rparr>"

definition demoReady :: bridge_state where
  "demoReady =
     \<lparr> nonce = Some ''abc'', popup = None, handshakeComplete = True, destroyed = False,
       popupPollIntervalId = None, readyPromise = Resolved, closedWindows = {},
       iframe_style_height = CssText ''0px'',
       effects = [AddEventListener, PostMessage 1 initMessage ''https://play.venyu.ch'', OnReady] \<rparr>"

definition popupWindowOpen :: effect where
  "popupWindowOpen =
     WindowOpen ''https://play.venyu.ch/embed/auth/popup''
       [(''parentOrigin'', ''https://club.example''), (''nonce'', ''abc''),
        (''embedSessionId'', ''es_1'')]
       ''venyu-auth'' ''width=480,height=640''"

definition popupHost :: host where
  "popupHost = demoHost\<lparr>window_open := Some 7\<rparr>"

definition demoWithPopup :: bridge_state where
  "demoWithPopup =
     demoReady\<lparr> popup := Some 7, popupPollIntervalId := Some 7,
                   effects := [AddEventListener, PostMessage 1 initMessage ''https://play.venyu.ch'',
                               OnReady, popupWindowOpen] \<rparr>"

definition fromPopup :: "jsval \<Rightarrow> MessageEvent" where
  "fromPopup raw = \<lparr> ev_origin = ''https://play.venyu.ch'', ev_source = Some 7, ev_data = raw \<rparr>"

definition bookedEvent :: MessageEvent where
  "bookedEvent =
     fromFrame (wire ''venyu:booked'' ''abc''
                  (JObj [(''bookingId'', JStr ''b1''), (''status'', JStr ''confirmed'')]))"

definition bookedMessage :: EmbedMessage where
  "bookedMessage =
     \<lparr> msg_type = ''venyu:booked'', msg_version = Finite 1, msg_requestId = ''r-1'',
       msg_timestamp = Finite 1700000000000, msg_nonce = ''abc'',
       msg_payload = JObj [(''bookingId'', JStr ''b1''), (''status'', JStr ''confirmed'')] \<rparr>"

definition openPopupMessage :: EmbedMessage where
  "openPopupMessage =
     \<lparr> msg_type = ''venyu:auth:open-popup'', msg_version = Finite 1, msg_requestId = ''r-1'',
       msg_timestamp = Finite 1700000000000, msg_nonce = ''abc'', msg_payload = JObj [] \<rparr>"

definition popupResultMessage :: EmbedMessage where
  "popupResultMessage =
     \<lparr> msg_type = ''venyu:auth:popup-result'', msg_version = Finite 1, msg_requestId = ''r-1'',
       msg_timestamp = Finite 1700000000000, msg_nonce = ''abc'',
       msg_payload = JObj [(''resultToken'', JStr ''tok_1'')] \<rparr>"

definition blockedMessage :: EmbedMessage where
  "blockedMessage =
     \<lparr> msg_type = ''venyu:auth:popup-result'', msg_version = Finite 1,
       msg_requestId = ''0f8fad5b-d9cb-469f-a165-70867728950e'',
       msg_timestamp = Finite 1700000000000, msg_nonce = ''abc'',
       msg_payload = JObj [(''resultToken'', JStr ''''), (''error'', JStr ''popup_blocked'')] \<rparr>"

definition relayedMessage :: EmbedMessage where
  "relayedMessage =
     \<lparr> msg_type = ''venyu:auth:popup-result'', msg_version = Finite 1,
       msg_requestId = ''0f8fad5b-d9cb-469f-a165-70867728950e'',
       msg_timestamp = Finite 1700000000000, msg_nonce = ''abc'',
       msg_payload = JObj [(''resultToken'', JStr ''tok_1'')] \<rparr>"

definition openPopupEvent :: MessageEvent where
  "openPopupEvent = fromFrame (wire ''venyu:auth:open-popup'' ''abc'' (JObj []))"

definition detachedReady :: bridge_state where
  "detachedReady =
     demoInitial\<lparr> nonce := Some ''abc'', handshakeComplete := True,
                   readyPromise := Rejected ''Iframe contentWindow is not available'',
                   effects := [AddEventListener, OnError ''Iframe contentWindow is not available''] \<rparr>"

definition resizeInfinityEvent :: MessageEvent where
  "resizeInfinityEvent = fromFrame (wire ''venyu:resize'' ''abc'' (JObj [(''height'', JNum PosInf)]))"

section \<open>Structural validation\<close>

lemma js_le_zero_positive:
  "ts \<noteq> NaN \<Longrightarrow> (\<not> js_le ts (Finite 0)) = positiveNumber (JNum ts)"
  by (cases ts) auto

lemma validate_Some_iff:
  "(validateIncomingMessage raw \<noteq> None) =
     (nonNullObject raw
      \<and> prefixedString (getProp raw ''type'')
      \<and> getProp raw ''version'' = JNum PROTOCOL_VERSION
      \<and> nonEmptyString (getProp raw ''requestId'')
      \<and> nonEmptyString (getProp raw ''nonce'')
      \<and> (\<exists>ts. getProp raw ''timestamp'' = JNum ts \<and> \<not> js_le ts (Finite 0))
      \<and> nonNullObject (getProp raw ''payload''))"
  unfolding validateIncomingMessage_def nonNullObject_def
  by (auto split: jsval.splits)

text \<open>An accepted message is its argument, field by field.\<close>

lemma validate_returns_fields:
  assumes "validateIncomingMessage raw = Some m"
  shows "getProp raw ''type'' = JStr (msg_type m) \<and> getProp raw ''version'' = JNum (msg_version m)
         \<and> getProp raw ''requestId'' = JStr (msg_requestId m)
         \<and> getProp raw ''timestamp'' = JNum (msg_timestamp m)
         \<and> getProp raw ''nonce'' = JStr (msg_nonce m)
         \<and> getProp raw ''payload'' = msg_payload m"
  using assms unfolding validateIncomingMessage_def
  by (auto split: jsval.splits if_splits)

lemma validated_nonce_nonempty:
  "validateIncomingMessage raw = Some m \<Longrightarrow> msg_nonce m \<noteq> []"
  unfolding validateIncomingMessage_def
  by (auto split: jsval.splits if_splits)

lemma malformed_invalid: "malformed raw \<Longrightarrow> validateIncomingMessage raw = None"
  unfolding malformed_def validateIncomingMessage_def nonNullObject_def
  by (auto split: jsval.splits)

lemma drop_invalid:
  "validateIncomingMessage (ev_data ev) = None \<Longrightarrow> handleMessage c h ev st = st"
  by (simp add: handleMessage_def)

section \<open>What each handler leaves alone\<close>

lemma emit_fields [simp]:
  "nonce (emit es st) = nonce st"
  "popup (emit es st) = popup st"
  "handshakeComplete (emit es st) = handshakeComplete st"
  "destroyed (emit es st) = destroyed st"
  "popupPollIntervalId (emit es st) = popupPollIntervalId st"
  "readyPromise (emit es st) = readyPromise st"
  "closedWindows (emit es st) = closedWindows st"
  "iframe_style_height (emit es st) = iframe_style_height st"
  "effects (emit es st) = effects st @ es"
  by (simp_all add: emit_def)

lemma clearPopupPoll_fields [simp]:
  "nonce (clearPopupPoll st) = nonce st"
  "popup (clearPopupPoll st) = popup st"
  "handshakeComplete (clearPopupPoll st) = handshakeComplete st"
  "destroyed (clearPopupPoll st) = destroyed st"
  "popupPollIntervalId (clearPopupPoll st) = None"
  "readyPromise (clearPopupPoll st) = readyPromise st"
  "closedWindows (clearPopupPoll st) = closedWindows st"
  "iframe_style_height (clearPopupPoll st) = iframe_style_height st"
  "effects (clearPopupPoll st) = effects st"
  by (simp_all add: clearPopupPoll_def)

lemma closeOpenPopup_fields [simp]:
  "nonce (closeOpenPopup st) = nonce st"
  "popup (closeOpenPopup st) = popup st"
  "handshakeComplete (closeOpenPopup st) = handshakeComplete st"
  "destroyed (closeOpenPopup st) = destroyed st"
  "popupPollIntervalId (closeOpenPopup st) = popupPollIntervalId st"
  "readyPromise (closeOpenPopup st) = readyPromise st"
  "iframe_style_height (closeOpenPopup st) = iframe_style_height st"
  by (simp_all add: closeOpenPopup_def split: option.splits)

lemma sendToIframe_fields [simp]:
  "nonce (sendToIframe c h ty p st) = nonce st"
  "popup (sendToIframe c h ty p st) = popup st"
  "handshakeComplete (sendToIframe c h ty p st) = handshakeComplete st"
  "destroyed (sendToIframe c h ty p st) = destroyed st"
  "popupPollIntervalId (sendToIframe c h ty p st) = popupPollIntervalId st"
  "readyPromise (sendToIframe c h ty p st) = readyPromise st"
  "closedWindows (sendToIframe c h ty p st) = closedWindows st"
  "iframe_style_height (sendToIframe c h ty p st) = iframe_style_height st"
  by (simp_all add: sendToIframe_def split: option.splits)

lemma rejectReady_fields [simp]:
  "nonce (rejectReady r st) = nonce st"
  "popup (rejectReady r st) = popup st"
  "handshakeComplete (rejectReady r st) = handshakeComplete st"
  "destroyed (rejectReady r st) = destroyed st"
  "popupPollIntervalId (rejectReady r st) = popupPollIntervalId st"
  "closedWindows (rejectReady r st) = closedWindows st"
  "iframe_style_height (rejectReady r st) = iframe_style_height st"
  "effects (rejectReady r st) = effects st"
  "readyPromise (rejectReady r st) = (if readyPromise st = Pending then Rejected r else readyPromise st)"
  by (simp_all add: rejectReady_def)

lemma openAuthPopup_keeps [simp]:
  "nonce (openAuthPopup c h st) = nonce st"
  "handshakeComplete (openAuthPopup c h st) = handshakeComplete st"
  "destroyed (openAuthPopup c h st) = destroyed st"
  "readyPromise (openAuthPopup c h st) = readyPromise st"
  "iframe_style_height (openAuthPopup c h st) = iframe_style_height st"
  by (simp_all add: openAuthPopup_def Let_def split: option.splits)

lemma handleResize_keeps [simp]:
  "nonce (handleResize v st) = nonce st"
  "popup (handleResize v st) = popup st"
  "handshakeComplete (handleResize v st) = handshakeComplete st"
  "destroyed (handleResize v st) = destroyed st"
  "readyPromise (handleResize v st) = readyPromise st"
  "effects (handleResize v st) = effects st"
  by (simp_all add: handleResize_def set_style_height_px_def split: jsval.splits)

lemma handlePopupMessage_keeps [simp]:
  "nonce (handlePopupMessage c h m st) = nonce st"
  "handshakeComplete (handlePopupMessage c h m st) = handshakeComplete st"
  "destroyed (handlePopupMessage c h m st) = destroyed st"
  "readyPromise (handlePopupMessage c h m st) = readyPromise st"
  "popup (handlePopupMessage c h m st) = None"
  "popupPollIntervalId (handlePopupMessage c h m st) = None"
  by (simp_all add: handlePopupMessage_def Let_def split: jsval.splits)

lemma routeByType_keeps [simp]:
  "nonce (routeByType c h m st) = nonce st"
  "handshakeComplete (routeByType c h m st) = handshakeComplete st"
  "destroyed (routeByType c h m st) = destroyed st"
  "readyPromise (routeByType c h m st) = readyPromise st"
  by (simp_all add: routeByType_def split: jsval.splits)

lemma handleReadyMessage_done [simp]:
  "handshakeComplete st \<Longrightarrow> handleReadyMessage c h m st = st"
  by (simp add: handleReadyMessage_def)

lemma handleMessage_after_handshake:
  assumes "handshakeComplete st"
  shows "nonce (handleMessage c h ev st) = nonce st"
    and "handshakeComplete (handleMessage c h ev st)"
    and "readyPromise (handleMessage c h ev st) = readyPromise st"
  using assms by (simp_all add: handleMessage_def split: option.splits)

lemma destroy_keeps [simp]:
  "nonce (destroy st) = nonce st"
  "handshakeComplete (destroy st) = handshakeComplete st"
  by (simp_all add: destroy_def)

lemma destroy_readyPromise:
  "readyPromise (destroy st) \<noteq> Resolved \<longleftrightarrow> readyPromise st \<noteq> Resolved"
  by (simp add: destroy_def)

lemma sendConfigUpdate_keeps [simp]:
  "nonce (sendConfigUpdate c h l t st) = nonce st"
  "handshakeComplete (sendConfigUpdate c h l t st) = handshakeComplete st"
  "readyPromise (sendConfigUpdate c h l t st) = readyPromise st"
  by (simp_all add: sendConfigUpdate_def)

lemma popupPollTick_keeps [simp]:
  "nonce (popupPollTick st) = nonce st"
  "handshakeComplete (popupPollTick st) = handshakeComplete st"
  "readyPromise (popupPollTick st) = readyPromise st"
  by (simp_all add: popupPollTick_def split: option.splits)

lemma step_after_handshake:
  assumes "handshakeComplete st"
  shows "handshakeComplete (step c st i)"
    and "nonce (step c st i) = nonce st"
    and "readyPromise st \<noteq> Resolved \<Longrightarrow> readyPromise (step c st i) \<noteq> Resolved"
  using assms
  by (cases i; simp add: handleMessage_after_handshake destroy_readyPromise)+

section \<open>Invariants of a session after the handshake\<close>

lemma run_Nil [simp]: "run c st [] = st"
  by (simp add: run_def)

lemma run_Cons [simp]: "run c st (i # ins) = run c (step c st i) ins"
  by (simp add: run_def)

lemma run_after_handshake:
  "handshakeComplete st \<Longrightarrow>
     handshakeComplete (run c st ins) \<and> nonce (run c st ins) = nonce st
     \<and> (readyPromise st \<noteq> Resolved \<longrightarrow> readyPromise (run c st ins) \<noteq> Resolved)"
proof (induction ins arbitrary: st)
  case Nil
  then show ?case by simp
next
  case (Cons i ins)
  from Cons.prems have hc: "handshakeComplete (step c st i)"
    by (rule step_after_handshake(1))
  from Cons.IH [OF hc] step_after_handshake(2,3) [OF Cons.prems, of c i]
  show ?case by simp
qed

lemma late_ready_dropped:
  assumes "handshakeComplete st" "readySignal (ev_data ev)"
  shows "handleMessage c h ev st = st"
  using assms
  by (auto simp: handleMessage_def readySignal_def split: option.splits)

lemma late_readies_dropped:
  assumes "handshakeComplete st" "\<forall>x \<in> set later. readySignal (ev_data (snd x))"
  shows "run c st (map (\<lambda>x. Message (fst x) (snd x)) later) = st"
  using assms
  by (induction later) (simp_all add: late_ready_dropped)

text \<open>After the handshake no handler invokes \<^verbatim>\<open>onReady\<close>.\<close>

lemma onReadyCalls_emit [simp]:
  "onReadyCalls (emit es st) = onReadyCalls st + length (filter (\<lambda>e. e = OnReady) es)"
  by (simp add: onReadyCalls_def)

lemma onReadyCalls_cong: "effects s = effects t \<Longrightarrow> onReadyCalls s = onReadyCalls t"
  by (simp add: onReadyCalls_def)

lemma onReadyCalls_keeps [simp]:
  "onReadyCalls (clearPopupPoll st) = onReadyCalls st"
  "onReadyCalls (closeOpenPopup st) = onReadyCalls st"
  "onReadyCalls (sendToIframe c h ty p st) = onReadyCalls st"
  "onReadyCalls (rejectReady r st) = onReadyCalls st"
  "onReadyCalls (st\<lparr>popup := x\<rparr>) = onReadyCalls st"
  "onReadyCalls (st\<lparr>popupPollIntervalId := y\<rparr>) = onReadyCalls st"
  "onReadyCalls (st\<lparr>closedWindows := z\<rparr>) = onReadyCalls st"
  "onReadyCalls (st\<lparr>destroyed := d\<rparr>) = onReadyCalls st"
  by (simp_all add: onReadyCalls_def closeOpenPopup_def sendToIframe_def emit_def
      split: option.splits)

lemma onReadyCalls_handleResize [simp]:
  "onReadyCalls (handleResize v st) = onReadyCalls st"
  by (rule onReadyCalls_cong) simp

lemma onReadyCalls_openAuthPopup [simp]:
  "onReadyCalls (openAuthPopup c h st) = onReadyCalls st"
  by (simp add: openAuthPopup_def Let_def split: option.splits)

lemma onReadyCalls_handlePopupMessage [simp]:
  "onReadyCalls (handlePopupMessage c h m st) = onReadyCalls st"
  by (simp add: handlePopupMessage_def Let_def split: jsval.splits)

lemma onReadyCalls_routeByType [simp]:
  "onReadyCalls (routeByType c h m st) = onReadyCalls st"
  by (simp add: routeByType_def split: jsval.splits)

lemma onReadyCalls_step:
  "handshakeComplete st \<Longrightarrow> onReadyCalls (step c st i) = onReadyCalls st"
  by (cases i)
     (simp_all add: handleMessage_def destroy_def sendConfigUpdate_def popupPollTick_def
        split: option.splits)

lemma onReadyCalls_run:
  "handshakeComplete st \<Longrightarrow> onReadyCalls (run c st ins) = onReadyCalls st"
proof (induction ins arbitrary: st)
  case Nil
  then show ?case by simp
next
  case (Cons i ins)
  then show ?case
    by (simp add: onReadyCalls_step step_after_handshake(1))
qed

text \<open>
  In every state a bridge can reach, the readiness promise is pending before the handshake
  and the teardown, and settled once the bridge is destroyed.
\<close>

lemma popupPollTick_destroyed [simp]: "destroyed (popupPollTick st) = destroyed st"
  by (simp add: popupPollTick_def split: option.splits)

lemma sendConfigUpdate_destroyed [simp]: "destroyed (sendConfigUpdate c h l t st) = destroyed st"
  by (simp add: sendConfigUpdate_def)

lemma promiseTracksState_handleMessage:
  "promiseTracksState st \<Longrightarrow> promiseTracksState (handleMessage c h ev st)"
  by (auto simp: promiseTracksState_def handleMessage_def handleReadyMessage_def Let_def
      resolveReady_def split: option.splits)

lemma promiseTracksState_destroy:
  "promiseTracksState st \<Longrightarrow> promiseTracksState (destroy st)"
  by (auto simp: promiseTracksState_def destroy_def)

lemma promiseTracksState_step:
  "promiseTracksState st \<Longrightarrow> promiseTracksState (step c st i)"
proof (cases i)
  case (Message h ev)
  assume "promiseTracksState st"
  with Message show ?thesis by (simp add: promiseTracksState_handleMessage)
next
  case Destroy
  assume "promiseTracksState st"
  with Destroy show ?thesis by (simp add: promiseTracksState_destroy)
qed (simp_all add: promiseTracksState_def)

lemma promiseTracksState_run:
  "promiseTracksState st \<Longrightarrow> promiseTracksState (run c st ins)"
  by (induction ins arbitrary: st) (simp_all add: promiseTracksState_step)

lemma promiseTracksState_created:
  "promiseTracksState
     (run (fst (createMessagingBridge h cfg cw hg)) (snd (createMessagingBridge h cfg cw hg)) ins)"
  by (rule promiseTracksState_run) (simp add: promiseTracksState_def createMessagingBridge_def)

lemma destroy_settles:
  assumes "promiseTracksState st"
  shows "readyPromise (destroy st) \<noteq> Pending"
    and "readyPromise st = Pending \<Longrightarrow>
           readyPromise (destroy st) = Rejected ''Embed widget was destroyed before ready''"
  using assms by (auto simp: promiseTracksState_def destroy_def)

lemma pending_before_handshake:
  assumes "s = run (fst (createMessagingBridge h cfg cw hg)) (snd (createMessagingBridge h cfg cw hg)) ins"
    and "\<not> handshakeComplete s" and "\<not> destroyed s"
  shows "readyPromise s = Pending"
  using promiseTracksState_created [of h cfg cw hg ins] assms
  by (simp add: promiseTracksState_def)

section \<open>The handlers, case by case\<close>

text \<open>What the dispatch does with each message type.\<close>

lemma routeByType_resize:
  "msg_type m = ''venyu:resize'' \<Longrightarrow> getProp (msg_payload m) ''height'' = JNum n \<Longrightarrow>
     routeByType c h m st = handleResize (JNum n) st"
  by (simp add: routeByType_def)

lemma routeByType_booked:
  "msg_type m = ''venyu:booked'' \<Longrightarrow> getProp (msg_payload m) ''bookingId'' = JStr b \<Longrightarrow>
     getProp (msg_payload m) ''status'' = JStr s \<Longrightarrow>
     routeByType c h m st = emit [OnBooked b s] st"
  by (simp add: routeByType_def)

lemma routeByType_open_popup:
  "msg_type m = ''venyu:auth:open-popup'' \<Longrightarrow> routeByType c h m st = openAuthPopup c h st"
  by (simp add: routeByType_def)

lemma routeByType_fallback:
  "msg_type m = ''venyu:auth:fallback-required'' \<Longrightarrow>
     getProp (msg_payload m) ''reason'' = JStr r \<Longrightarrow>
     routeByType c h m st = emit [OnAuthFallbackRequired r] st"
  by (simp add: routeByType_def)

lemma routeByType_navigate:
  "msg_type m = ''venyu:navigate'' \<Longrightarrow> routeByType c h m st = emit [ScrollIntoView] st"
  by (simp add: routeByType_def)

lemma routeByType_unrecognised:
  "msg_type m \<notin> {''venyu:resize'', ''venyu:booked'', ''venyu:auth:open-popup'',
                   ''venyu:auth:fallback-required'', ''venyu:navigate''} \<Longrightarrow>
     routeByType c h m st = st"
  by (simp add: routeByType_def)

text \<open>The first ready signal accepted from the frame.\<close>

lemma handleMessage_first_ready:
  assumes "acceptedFromFrame c st h ev"
    and "validateIncomingMessage (ev_data ev) = Some m"
    and "msg_type m = ''venyu:ready''"
    and "\<not> handshakeComplete st"
  shows "handleMessage c h ev st =
     (case contentWindow h of
        None \<Rightarrow>
          rejectReady ''Iframe contentWindow is not available''
            (emit [OnError ''Iframe contentWindow is not available'']
               (st\<lparr>handshakeComplete := True, nonce := Some (msg_nonce m)\<rparr>))
      | Some w \<Rightarrow>
          resolveReady
            (emit [PostMessage w
                     (buildMessage h ''venyu:init'' (initPayload c (msg_nonce m)) (msg_nonce m))
                     (expectedOrigin c), OnReady]
               (st\<lparr>handshakeComplete := True, nonce := Some (msg_nonce m)\<rparr>)))"
  using assms
  by (simp add: handleMessage_def acceptedFromFrame_def handleReadyMessage_def Let_def)

text \<open>A popup-open request that the browser blocks.\<close>

lemma closeOpenPopup_not_from_popup: "\<not> isFromPopup (closeOpenPopup st) ev"
  by (simp add: isFromPopup_def closeOpenPopup_def emit_def split: option.splits)

lemma closeOpenPopup_effects:
  "effects (closeOpenPopup st) = effects st @
     (case popup st of None \<Rightarrow> [] | Some p \<Rightarrow> if p \<in> closedWindows st then [] else [PopupClose p])"
  by (simp add: closeOpenPopup_def split: option.splits)

lemma isFromPopup_cong:
  "popup s = popup t \<Longrightarrow> closedWindows s = closedWindows t \<Longrightarrow> isFromPopup s ev = isFromPopup t ev"
  by (simp add: isFromPopup_def split: option.splits)

lemma openAuthPopup_blocked:
  assumes "\<not> destroyed st" and "nonce st = Some n" and "n \<noteq> []"
    and "URL_origin h (playUrl c @ ''/embed/auth/popup'') = Some u"
    and "window_open h = None"
  shows "openAuthPopup c h st =
     emit ([WindowOpen (playUrl c @ ''/embed/auth/popup'')
              [(''parentOrigin'', location_origin h), (''nonce'', n),
               (''embedSessionId'', embedSessionId c)]
              ''venyu-auth'' (getPopupFeatures h)]
           @ (case contentWindow h of
                None \<Rightarrow> []
              | Some w \<Rightarrow>
                 [PostMessage w
                    \<lparr> msg_type = ''venyu:auth:popup-result'', msg_version = PROTOCOL_VERSION,
                      msg_requestId = generateRequestId h, msg_timestamp = Date_now h,
                      msg_nonce = n,
                      msg_payload = JObj [(''resultToken'', JStr ''''),
                                          (''error'', JStr ''popup_blocked'')] \<rparr>
                    (expectedOrigin c)])
           @ [OnError ''Auth popup was blocked by the browser''])
       (closeOpenPopup (clearPopupPoll st))"
  using assms
  by (simp add: openAuthPopup_def Let_def sendToIframe_def popupSearchParams_def buildMessage_def
      emit_def split: option.splits)

section \<open>Evaluating the concrete session\<close>

lemma demoConsts_simps [simp]:
  "expectedOrigin demoConsts = ''https://play.venyu.ch''"
  "playUrl demoConsts = ''https://play.venyu.ch''"
  "config_locale demoConsts = ''de''"
  "config_theme demoConsts = JObj []"
  "embedSessionId demoConsts = ''es_1''"
  by (simp_all add: demoConsts_def createMessagingBridge_def extractOrigin_def demoHost_def demoConfig_def)

lemma demoInitial_simps [simp]:
  "nonce demoInitial = None" "popup demoInitial = None" "\<not> handshakeComplete demoInitial"
  "\<not> destroyed demoInitial" "popupPollIntervalId demoInitial = None"
  "readyPromise demoInitial = Pending" "closedWindows demoInitial = {}"
  "iframe_style_height demoInitial = CssText ''0px''" "effects demoInitial = [AddEventListener]"
  by (simp_all add: demoInitial_def createMessagingBridge_def)

lemma demoHost_simps [simp]:
  "contentWindow demoHost = Some 1" "window_open demoHost = None"
  "location_origin demoHost = ''https://club.example''"
  "generateRequestId demoHost = ''0f8fad5b-d9cb-469f-a165-70867728950e''"
  "Date_now demoHost = Finite 1700000000000"
  "getPopupFeatures demoHost = ''width=480,height=640''"
  "URL_origin demoHost ''https://play.venyu.ch/embed/auth/popup'' = Some ''https://play.venyu.ch''"
  by (simp_all add: demoHost_def)

lemma detachedHost_simps [simp]:
  "contentWindow detachedHost = None" "window_open detachedHost = None"
  "location_origin detachedHost = ''https://club.example''"
  "generateRequestId detachedHost = ''0f8fad5b-d9cb-469f-a165-70867728950e''"
  "Date_now detachedHost = Finite 1700000000000"
  "getPopupFeatures detachedHost = ''width=480,height=640''"
  "URL_origin detachedHost ''https://play.venyu.ch/embed/auth/popup'' = Some ''https://play.venyu.ch''"
  by (simp_all add: detachedHost_def demoHost_def)

lemma validate_wire:
  "validateIncomingMessage (wire (''venyu:'' @ t) (a # n) (JObj ps)) =
     Some \<lparr> msg_type = ''venyu:'' @ t, msg_version = Finite 1, msg_requestId = ''r-1'',
            msg_timestamp = Finite 1700000000000, msg_nonce = a # n, msg_payload = JObj ps \<rparr>"
  by (simp add: validateIncomingMessage_def wire_def PROTOCOL_VERSION_def MESSAGE_PREFIX_def)

lemma readyEvent_simps [simp]:
  "ev_origin readyEvent = ''https://play.venyu.ch''" "ev_source readyEvent = Some 1"
  "validateIncomingMessage (ev_data readyEvent) = Some readyMessage"
  using validate_wire [of "''ready''" "CHR ''a''" "''bc''" "[]"]
  by (simp_all add: readyEvent_def fromFrame_def readyMessage_def)

lemma readyMessage_simps [simp]:
  "msg_type readyMessage = ''venyu:ready''" "msg_nonce readyMessage = ''abc''"
  by (simp_all add: readyMessage_def)

lemma readyEvent_accepted: "acceptedFromFrame demoConsts demoInitial demoHost readyEvent"
  by (simp add: acceptedFromFrame_def isFromIframe_def isFromPopup_def)

lemma demoReady_simps [simp]:
  "nonce demoReady = Some ''abc''" "popup demoReady = None" "handshakeComplete demoReady"
  "\<not> destroyed demoReady" "popupPollIntervalId demoReady = None"
  "readyPromise demoReady = Resolved" "closedWindows demoReady = {}"
  "iframe_style_height demoReady = CssText ''0px''"
  "effects demoReady = [AddEventListener, PostMessage 1 initMessage ''https://play.venyu.ch'', OnReady]"
  by (simp_all add: demoReady_def)

lemma demoWithPopup_simps [simp]:
  "nonce demoWithPopup = Some ''abc''" "popup demoWithPopup = Some 7"
  "handshakeComplete demoWithPopup" "\<not> destroyed demoWithPopup"
  "popupPollIntervalId demoWithPopup = Some 7" "readyPromise demoWithPopup = Resolved"
  "closedWindows demoWithPopup = {}"
  "effects demoWithPopup =
     [AddEventListener, PostMessage 1 initMessage ''https://play.venyu.ch'', OnReady, popupWindowOpen]"
  by (simp_all add: demoWithPopup_def)

lemma bookedEvent_simps [simp]:
  "ev_origin bookedEvent = ''https://play.venyu.ch''" "ev_source bookedEvent = Some 1"
  "validateIncomingMessage (ev_data bookedEvent) = Some bookedMessage"
  using validate_wire [of "''booked''" "CHR ''a''" "''bc''"
          "[(''bookingId'', JStr ''b1''), (''status'', JStr ''confirmed'')]"]
  by (simp_all add: bookedEvent_def fromFrame_def bookedMessage_def)

lemma bookedMessage_simps [simp]:
  "msg_type bookedMessage = ''venyu:booked''" "msg_nonce bookedMessage = ''abc''"
  "msg_payload bookedMessage = JObj [(''bookingId'', JStr ''b1''), (''status'', JStr ''confirmed'')]"
  by (simp_all add: bookedMessage_def)

lemma openPopup_simps [simp]:
  "validateIncomingMessage (wire ''venyu:auth:open-popup'' ''abc'' (JObj [])) = Some openPopupMessage"
  "msg_type openPopupMessage = ''venyu:auth:open-popup''" "msg_nonce openPopupMessage = ''abc''"
  using validate_wire [of "''auth:open-popup''" "CHR ''a''" "''bc''" "[]"]
  by (simp_all add: openPopupMessage_def)

lemma popupResult_simps [simp]:
  "validateIncomingMessage (wire ''venyu:auth:popup-result'' ''abc'' (JObj [(''resultToken'', JStr ''tok_1'')]))
     = Some popupResultMessage"
  "msg_type popupResultMessage = ''venyu:auth:popup-result''" "msg_nonce popupResultMessage = ''abc''"
  "msg_payload popupResultMessage = JObj [(''resultToken'', JStr ''tok_1'')]"
  using validate_wire [of "''auth:popup-result''" "CHR ''a''" "''bc''" "[(''resultToken'', JStr ''tok_1'')]"]
  by (simp_all add: popupResultMessage_def)

lemma openPopupEvent_simps [simp]:
  "ev_origin openPopupEvent = ''https://play.venyu.ch''" "ev_source openPopupEvent = Some 1"
  "validateIncomingMessage (ev_data openPopupEvent) = Some openPopupMessage"
  by (simp_all add: openPopupEvent_def fromFrame_def)

lemma fromNowhere_simps [simp]:
  "ev_origin (fromNowhere raw) = ''https://play.venyu.ch''" "ev_source (fromNowhere raw) = None"
  "ev_data (fromNowhere raw) = raw"
  by (simp_all add: fromNowhere_def)

text \<open>The states used below are reached from a freshly created bridge.\<close>

lemma demoReady_reached:
  "run demoConsts demoInitial [Message demoHost readyEvent] = demoReady"
  by (simp add: handleMessage_def isFromIframe_def isFromPopup_def handleReadyMessage_def
      resolveReady_def emit_def buildMessage_def initPayload_def themeOrEmpty_def
      PROTOCOL_VERSION_def demoReady_def initMessage_def demoInitial_def createMessagingBridge_def)

lemma demoWithPopup_reached:
  "run demoConsts demoReady [Message popupHost openPopupEvent] = demoWithPopup"
  by (simp add: handleMessage_def isFromIframe_def isFromPopup_def routeByType_def
      openAuthPopup_def closeOpenPopup_def clearPopupPoll_def popupSearchParams_def emit_def
      Let_def popupHost_def demoHost_def popupWindowOpen_def demoWithPopup_def demoReady_def)

lemma detachedReady_reached:
  "run demoConsts demoInitial
     [Message detachedHost (fromNowhere (wire ''venyu:ready'' ''abc'' (JObj [])))] = detachedReady"
  using validate_wire [of "''ready''" "CHR ''a''" "''bc''" "[]"]
  by (simp add: handleMessage_def isFromIframe_def isFromPopup_def handleReadyMessage_def
      rejectReady_def emit_def detachedReady_def demoInitial_def createMessagingBridge_def)

section \<open>The handshake\<close>

text \<open>
  Claim C1. Let a ready signal be accepted from the frame by a bridge that has not completed
  its handshake, followed by any number of further structurally valid ready signals. The
  first one completes the handshake and captures its nonce; every later ready signal leaves
  the whole state as it is (no effect, no reassignment), and no later input of any kind
  changes the nonce or undoes the handshake. When the frame's \<^verbatim>\<open>contentWindow\<close> is
  available, the first signal posts exactly one \<^verbatim>\<open>venyu:init\<close> message carrying the nonce in
  the envelope and in the payload, invokes \<^verbatim>\<open>onReady\<close> once and resolves the readiness
  promise, and changes nothing else; \<^verbatim>\<open>onReady\<close> is never invoked again, whatever happens to
  the bridge later.
\<close>

theorem first_ready_completes_handshake:
  assumes "acceptedFromFrame c st h ev"
    and "validateIncomingMessage (ev_data ev) = Some m"
    and "msg_type m = ''venyu:ready''"
    and "\<not> handshakeComplete st"
    and "readyPromise st = Pending"
    and "\<forall>x \<in> set later. readySignal (ev_data (snd x))"
  shows "let s1 = handleMessage c h ev st in
     handshakeComplete s1 \<and> nonce s1 = Some (msg_nonce m)
     \<and> run c s1 (map (\<lambda>x. Message (fst x) (snd x)) later) = s1
     \<and> (\<forall>ins. handshakeComplete (run c s1 ins) \<and> nonce (run c s1 ins) = Some (msg_nonce m))
     \<and> (\<forall>w. contentWindow h = Some w \<longrightarrow>
          s1 = st\<lparr> nonce := Some (msg_nonce m), handshakeComplete := True,
                    readyPromise := Resolved,
                    effects := effects st @
                      [PostMessage w
                         \<lparr> msg_type = ''venyu:init'', msg_version = PROTOCOL_VERSION,
                           msg_requestId = generateRequestId h, msg_timestamp = Date_now h,
                           msg_nonce = msg_nonce m,
                           msg_payload =
                             JObj [(''nonce'', JStr (msg_nonce m)),
                                   (''locale'', JStr (config_locale c)),
                                   (''theme'', themeOrEmpty (config_theme c))] \<rparr>
                         (expectedOrigin c),
                       OnReady] \<rparr>
          \<and> (\<forall>ins. onReadyCalls (run c s1 ins) = Suc (onReadyCalls st)))"
proof -
  define s1 where "s1 = handleMessage c h ev st"
  have eq: "s1 = (case contentWindow h of
        None \<Rightarrow>
          rejectReady ''Iframe contentWindow is not available''
            (emit [OnError ''Iframe contentWindow is not available'']
               (st\<lparr>handshakeComplete := True, nonce := Some (msg_nonce m)\<rparr>))
      | Some w \<Rightarrow>
          resolveReady
            (emit [PostMessage w
                     (buildMessage h ''venyu:init'' (initPayload c (msg_nonce m)) (msg_nonce m))
                     (expectedOrigin c), OnReady]
               (st\<lparr>handshakeComplete := True, nonce := Some (msg_nonce m)\<rparr>)))"
    unfolding s1_def using assms(1-4) by (rule handleMessage_first_ready)
  have hc: "handshakeComplete s1" and nn: "nonce s1 = Some (msg_nonce m)"
    unfolding eq by (simp_all add: resolveReady_def split: option.splits)
  have later: "run c s1 (map (\<lambda>x. Message (fst x) (snd x)) later) = s1"
    using hc assms(6) by (rule late_readies_dropped)
  have forever: "\<forall>ins. handshakeComplete (run c s1 ins) \<and> nonce (run c s1 ins) = Some (msg_nonce m)"
    using run_after_handshake [OF hc] nn by simp
  have sent: "\<forall>w. contentWindow h = Some w \<longrightarrow>
          s1 = st\<lparr> nonce := Some (msg_nonce m), handshakeComplete := True,
                    readyPromise := Resolved,
                    effects := effects st @
                      [PostMessage w
                         \<lparr> msg_type = ''venyu:init'', msg_version = PROTOCOL_VERSION,
                           msg_requestId = generateRequestId h, msg_timestamp = Date_now h,
                           msg_nonce = msg_nonce m,
                           msg_payload =
                             JObj [(''nonce'', JStr (msg_nonce m)),
                                   (''locale'', JStr (config_locale c)),
                                   (''theme'', themeOrEmpty (config_theme c))] \<rparr>
                         (expectedOrigin c),
                       OnReady] \<rparr>"
    unfolding eq using assms(5)
    by (simp add: resolveReady_def emit_def buildMessage_def initPayload_def)
  have once: "\<forall>w. contentWindow h = Some w \<longrightarrow>
          (\<forall>ins. onReadyCalls (run c s1 ins) = Suc (onReadyCalls st))"
  proof (intro allI impI)
    fix w ins
    assume w: "contentWindow h = Some w"
    have "onReadyCalls s1 = Suc (onReadyCalls st)"
      unfolding eq using w by (simp add: resolveReady_def onReadyCalls_def emit_def)
    then show "onReadyCalls (run c s1 ins) = Suc (onReadyCalls st)"
      using onReadyCalls_run [OF hc, of c ins] by simp
  qed
  from hc nn later forever sent once show ?thesis
    unfolding s1_def [symmetric] Let_def by blast
qed

text \<open>
  The scenario of the specification: a ready signal with nonce \<open>abc\<close>, then the same signal
  again and one with another nonce.
\<close>

theorem first_ready_completes_handshake_witness:
  "acceptedFromFrame demoConsts demoInitial demoHost readyEvent
   \<and> validateIncomingMessage (ev_data readyEvent) = Some readyMessage
   \<and> readySignal (ev_data (fromFrame (wire ''venyu:ready'' ''zzz'' (JObj []))))
   \<and> handleMessage demoConsts demoHost readyEvent demoInitial = demoReady
   \<and> run demoConsts demoReady
        [Message demoHost readyEvent,
         Message demoHost (fromFrame (wire ''venyu:ready'' ''zzz'' (JObj [])))] = demoReady
   \<and> onReadyCalls (run demoConsts demoReady [Message demoHost readyEvent, Destroy]) = 1"
proof -
  let ?late = "fromFrame (wire ''venyu:ready'' ''zzz'' (JObj []))"
  have v: "validateIncomingMessage (ev_data readyEvent) = Some readyMessage" by simp
  have t: "msg_type readyMessage = ''venyu:ready''" by simp
  have n: "\<not> handshakeComplete demoInitial" by simp
  have p: "readyPromise demoInitial = Pending" by simp
  have r1: "readySignal (ev_data readyEvent)" by (simp add: readySignal_def)
  have r2: "readySignal (ev_data ?late)"
    using validate_wire [of "''ready''" "CHR ''z''" "''zz''" "[]"]
    by (simp add: readySignal_def fromFrame_def)
  have l: "\<forall>x \<in> set [(demoHost, readyEvent), (demoHost, ?late)]. readySignal (ev_data (snd x))"
    using r1 r2 by simp
  note inst = first_ready_completes_handshake [OF readyEvent_accepted v t n p l]
  have s1: "handleMessage demoConsts demoHost readyEvent demoInitial = demoReady"
    using inst
    by (simp add: Let_def demoReady_def initMessage_def PROTOCOL_VERSION_def themeOrEmpty_def
        demoInitial_def createMessagingBridge_def)
  have later: "run demoConsts demoReady [Message demoHost readyEvent, Message demoHost ?late] = demoReady"
    using inst unfolding Let_def s1 by simp
  have c1: "contentWindow demoHost = Some 1" by simp
  have "onReadyCalls (run demoConsts demoReady [Message demoHost readyEvent, Destroy])
          = Suc (onReadyCalls demoInitial)"
    using inst c1 unfolding Let_def s1 by blast
  then have once: "onReadyCalls (run demoConsts demoReady [Message demoHost readyEvent, Destroy]) = 1"
    by (simp add: onReadyCalls_def)
  from readyEvent_accepted v r2 s1 later once show ?thesis by blast
qed

section \<open>The router\<close>

text \<open>
  Claim C2. A structurally valid message accepted from the frame, of any type other than
  \<^verbatim>\<open>venyu:ready\<close>, reaches the dispatch on its type exactly when the handshake is complete
  and its nonce is the session nonce; otherwise it is dropped: the state, its effect log
  included, is unchanged.
\<close>

theorem frame_gate:
  assumes "acceptedFromFrame c st h ev"
    and "validateIncomingMessage (ev_data ev) = Some m"
    and "msg_type m \<noteq> ''venyu:ready''"
  shows "handleMessage c h ev st =
           (if handshakeComplete st \<and> nonce st = Some (msg_nonce m)
            then routeByType c h m st else st)"
  using assms by (auto simp: handleMessage_def acceptedFromFrame_def)

text \<open>
  A \<^verbatim>\<open>venyu:booked\<close> message invokes \<^verbatim>\<open>onBooked\<close> once after the handshake and is dropped
  before it.
\<close>

theorem frame_gate_witness:
  "acceptedFromFrame demoConsts demoReady demoHost bookedEvent
   \<and> acceptedFromFrame demoConsts demoInitial demoHost bookedEvent
   \<and> validateIncomingMessage (ev_data bookedEvent) = Some bookedMessage
   \<and> effects (handleMessage demoConsts demoHost bookedEvent demoReady)
       = effects demoReady @ [OnBooked ''b1'' ''confirmed'']
   \<and> handleMessage demoConsts demoHost bookedEvent demoInitial = demoInitial"
proof -
  have a1: "acceptedFromFrame demoConsts demoReady demoHost bookedEvent"
    and a0: "acceptedFromFrame demoConsts demoInitial demoHost bookedEvent"
    by (simp_all add: acceptedFromFrame_def isFromIframe_def isFromPopup_def)
  have v: "validateIncomingMessage (ev_data bookedEvent) = Some bookedMessage" by simp
  have t: "msg_type bookedMessage \<noteq> ''venyu:ready''" by simp
  have after: "effects (handleMessage demoConsts demoHost bookedEvent demoReady)
       = effects demoReady @ [OnBooked ''b1'' ''confirmed'']"
    using frame_gate [OF a1 v t] by (simp add: routeByType_def)
  have before: "handleMessage demoConsts demoHost bookedEvent demoInitial = demoInitial"
    using frame_gate [OF a0 v t] by simp
  from a1 a0 v after before show ?thesis by blast
qed

text \<open>
  Claim C3. A message whose declared origin differs from the expected origin computed from
  the configured play URL is dropped, whatever its data, source and nonce: the state and the
  effect log are unchanged.
\<close>

theorem foreign_origin_dropped:
  assumes "ev_origin ev \<noteq> extractOrigin h0 (playUrl cfg)"
  shows "handleMessage (fst (createMessagingBridge h0 cfg cw hg)) h ev st = st"
  using assms by (simp add: handleMessage_def createMessagingBridge_def)

theorem foreign_origin_dropped_witness:
  "''https://evil.example'' \<noteq> extractOrigin demoHost (playUrl demoConfig)
   \<and> handleMessage demoConsts demoHost (bookedEvent\<lparr>ev_origin := ''https://evil.example''\<rparr>) demoReady
      = demoReady"
proof -
  have o: "ev_origin (bookedEvent\<lparr>ev_origin := ''https://evil.example''\<rparr>)
             \<noteq> extractOrigin demoHost (playUrl demoConfig)"
    by (simp add: extractOrigin_def demoHost_def demoConfig_def)
  from o foreign_origin_dropped [OF o, of "{}" "CssText ''0px''" demoHost demoReady]
  show ?thesis by (simp add: demoConsts_def)
qed

text \<open>
  Claim C4. A message whose source is the tracked, open popup is handed to the popup-result
  handler exactly when it is structurally valid, its type is \<^verbatim>\<open>venyu:auth:popup-result\<close>
  and the session nonce exists and equals its nonce; in every other case it is dropped.
\<close>

theorem popup_gate:
  assumes "\<not> destroyed st" and "ev_origin ev = expectedOrigin c" and "isFromPopup st ev"
  shows "handleMessage c h ev st =
           (case validateIncomingMessage (ev_data ev) of
              None \<Rightarrow> st
            | Some m \<Rightarrow>
               (if msg_type m = ''venyu:auth:popup-result'' \<and> nonce st = Some (msg_nonce m)
                then handlePopupMessage c h m st else st))"
  using assms validated_nonce_nonempty [of "ev_data ev"]
  by (auto simp: handleMessage_def noNonce_def split: option.splits)

text \<open>
  The popup's result with token \<open>tok_1\<close> is relayed to the frame and the popup is closed and
  forgotten; the same message under another nonce is dropped.
\<close>

theorem popup_gate_witness:
  "isFromPopup demoWithPopup
     (fromPopup (wire ''venyu:auth:popup-result'' ''abc'' (JObj [(''resultToken'', JStr ''tok_1'')])))
   \<and> handleMessage demoConsts demoHost
       (fromPopup (wire ''venyu:auth:popup-result'' ''abc'' (JObj [(''resultToken'', JStr ''tok_1'')])))
       demoWithPopup
     = demoWithPopup\<lparr> popup := None, popupPollIntervalId := None, closedWindows := {7},
                       effects := effects demoWithPopup
                         @ [PostMessage 1 relayedMessage ''https://play.venyu.ch'', PopupClose 7] \<rparr>
   \<and> handleMessage demoConsts demoHost
       (fromPopup (wire ''venyu:auth:popup-result'' ''xyz'' (JObj [(''resultToken'', JStr ''tok_1'')])))
       demoWithPopup
     = demoWithPopup"
proof -
  let ?good = "fromPopup (wire ''venyu:auth:popup-result'' ''abc'' (JObj [(''resultToken'', JStr ''tok_1'')]))"
  let ?bad = "fromPopup (wire ''venyu:auth:popup-result'' ''xyz'' (JObj [(''resultToken'', JStr ''tok_1'')]))"
  have nd: "\<not> destroyed demoWithPopup" by simp
  have og: "ev_origin ?good = expectedOrigin demoConsts"
    and ob: "ev_origin ?bad = expectedOrigin demoConsts"
    by (simp_all add: fromPopup_def)
  have pg: "isFromPopup demoWithPopup ?good" and pb: "isFromPopup demoWithPopup ?bad"
    by (simp_all add: isFromPopup_def fromPopup_def)
  have good: "handleMessage demoConsts demoHost ?good demoWithPopup
     = demoWithPopup\<lparr> popup := None, popupPollIntervalId := None, closedWindows := {7},
                       effects := effects demoWithPopup
                         @ [PostMessage 1 relayedMessage ''https://play.venyu.ch'', PopupClose 7] \<rparr>"
    using popup_gate [OF nd og pg, of demoHost]
    by (simp add: fromPopup_def handlePopupMessage_def sendToIframe_def buildMessage_def
        closeOpenPopup_def clearPopupPoll_def emit_def relayedMessage_def PROTOCOL_VERSION_def
        demoWithPopup_def demoReady_def)
  have bad: "handleMessage demoConsts demoHost ?bad demoWithPopup = demoWithPopup"
    using popup_gate [OF nd ob pb, of demoHost]
          validate_wire [of "''auth:popup-result''" "CHR ''x''" "''yz''" "[(''resultToken'', JStr ''tok_1'')]"]
    by (simp add: fromPopup_def)
  from pg good bad show ?thesis by blast
qed

section \<open>Validation against the specification\<close>

text \<open>
  On every value whose timestamp is not NaN, validation accepts exactly the values that
  are structurally valid in the specification's sense.
\<close>

lemma validate_agrees_unless_NaN:
  assumes "getProp raw ''timestamp'' \<noteq> JNum NaN"
  shows "(validateIncomingMessage raw \<noteq> None) = spec_structurally_valid raw"
proof -
  have "(\<exists>ts. getProp raw ''timestamp'' = JNum ts \<and> \<not> js_le ts (Finite 0))
        = positiveNumber (getProp raw ''timestamp'')"
  proof (cases "getProp raw ''timestamp''")
    case (JNum ts)
    with assms have "ts \<noteq> NaN" by simp
    with JNum show ?thesis by (simp add: js_le_zero_positive)
  qed simp_all
  then show ?thesis
    unfolding validate_Some_iff spec_structurally_valid_def by simp
qed

text \<open>
  Claim C5 says that validation accepts a value exactly when it is structurally valid in
  the specification's sense, which asks for a positive timestamp. The code departs from it
  at a NaN timestamp: \<^verbatim>\<open>NaN <= 0\<close> is false, so the message is returned.
\<close>

theorem validate_accepts_NaN_timestamp:
  "validateIncomingMessage nanTimestampMessage =
     Some \<lparr> msg_type = ''venyu:resize'', msg_version = Finite 1, msg_requestId = ''r-1'',
            msg_timestamp = NaN, msg_nonce = ''abc'', msg_payload = JObj [] \<rparr>
   \<and> \<not> positiveNumber (getProp nanTimestampMessage ''timestamp'')
   \<and> \<not> spec_structurally_valid nanTimestampMessage"
  by (simp add: validateIncomingMessage_def nanTimestampMessage_def spec_structurally_valid_def
      PROTOCOL_VERSION_def MESSAGE_PREFIX_def)

theorem validate_accepts_NaN_timestamp_witness:
  "validateIncomingMessage nanTimestampMessage \<noteq> None
   \<and> \<not> spec_structurally_valid nanTimestampMessage"
  using validate_accepts_NaN_timestamp by simp

text \<open>
  Claim C6. A malformed payload (wrong protocol version, a required field missing or of the
  wrong type, or a payload that is not an object) is dropped whatever its origin and source:
  the state (nonce, handshake flag, destroyed flag, popup reference) and the effect log are
  unchanged.
\<close>

theorem malformed_dropped:
  assumes "malformed (ev_data ev)"
  shows "handleMessage c h ev st = st"
  using malformed_invalid [OF assms] by (rule drop_invalid)

theorem malformed_dropped_witness:
  "malformed (JObj [(''type'', JStr ''venyu:booked''), (''version'', JNum (Finite 2)),
                    (''requestId'', JStr ''r-1''), (''timestamp'', JNum (Finite 5)),
                    (''nonce'', JStr ''abc''), (''payload'', JStr ''not an object'')])
   \<and> handleMessage demoConsts demoHost
        (fromFrame (JObj [(''type'', JStr ''venyu:booked''), (''version'', JNum (Finite 2)),
                    (''requestId'', JStr ''r-1''), (''timestamp'', JNum (Finite 5)),
                    (''nonce'', JStr ''abc''), (''payload'', JStr ''not an object'')]))
        demoReady = demoReady"
proof -
  let ?raw = "JObj [(''type'', JStr ''venyu:booked''), (''version'', JNum (Finite 2)),
                    (''requestId'', JStr ''r-1''), (''timestamp'', JNum (Finite 5)),
                    (''nonce'', JStr ''abc''), (''payload'', JStr ''not an object'')]"
  have m: "malformed ?raw"
    by (simp add: malformed_def PROTOCOL_VERSION_def)
  then have m': "malformed (ev_data (fromFrame ?raw))"
    by (simp add: fromFrame_def)
  from m malformed_dropped [OF m', of demoConsts demoHost demoReady] show ?thesis by blast
qed

section \<open>Tearing the bridge down\<close>

text \<open>
  Claim C7. \<^verbatim>\<open>destroy\<close> is idempotent and sets the destroyed flag from any state. On a bridge
  not yet destroyed it removes the listener once, closes the popup once if one is open,
  forgets the popup and its poll, and rejects the readiness promise with the destruction
  error if it was pending (a settled promise keeps its value). In every state a bridge can
  reach from its creation, the promise is settled after \<^verbatim>\<open>destroy\<close>, and rejected with the
  destruction error if it was pending before.
\<close>

theorem destroy_idempotent:
  "destroy (destroy st) = destroy st \<and> destroyed (destroy st)
   \<and> (\<not> destroyed st \<longrightarrow>
        destroy st =
          st\<lparr> destroyed := True, popup := None, popupPollIntervalId := None,
               readyPromise := (if readyPromise st = Pending
                                then Rejected ''Embed widget was destroyed before ready''
                                else readyPromise st),
               closedWindows := (case popup st of None \<Rightarrow> closedWindows st
                                 | Some p \<Rightarrow> insert p (closedWindows st)),
               effects := effects st @ [RemoveEventListener] @
                  (case popup st of None \<Rightarrow> []
                   | Some p \<Rightarrow> if p \<in> closedWindows st then [] else [PopupClose p]) \<rparr>)
   \<and> (\<forall>h cfg cw hg ins.
        let s = run (fst (createMessagingBridge h cfg cw hg))
                    (snd (createMessagingBridge h cfg cw hg)) ins
        in readyPromise (destroy s) \<noteq> Pending
           \<and> (readyPromise s = Pending \<longrightarrow>
                readyPromise (destroy s) = Rejected ''Embed widget was destroyed before ready''))"
proof -
  have twice: "destroy (destroy st) = destroy st" and flag: "destroyed (destroy st)"
    by (simp_all add: destroy_def)
  have live: "\<not> destroyed st \<longrightarrow>
        destroy st =
          st\<lparr> destroyed := True, popup := None, popupPollIntervalId := None,
               readyPromise := (if readyPromise st = Pending
                                then Rejected ''Embed widget was destroyed before ready''
                                else readyPromise st),
               closedWindows := (case popup st of None \<Rightarrow> closedWindows st
                                 | Some p \<Rightarrow> insert p (closedWindows st)),
               effects := effects st @ [RemoveEventListener] @
                  (case popup st of None \<Rightarrow> []
                   | Some p \<Rightarrow> if p \<in> closedWindows st then [] else [PopupClose p]) \<rparr>"
    by (auto simp: destroy_def rejectReady_def closeOpenPopup_def clearPopupPoll_def emit_def
        insert_absorb split: option.splits)
  have settled: "\<forall>h cfg cw hg ins.
        let s = run (fst (createMessagingBridge h cfg cw hg))
                    (snd (createMessagingBridge h cfg cw hg)) ins
        in readyPromise (destroy s) \<noteq> Pending
           \<and> (readyPromise s = Pending \<longrightarrow>
                readyPromise (destroy s) = Rejected ''Embed widget was destroyed before ready'')"
    unfolding Let_def
    using destroy_settles [OF promiseTracksState_created] by blast
  from twice flag live settled show ?thesis by blast
qed

theorem destroy_idempotent_witness:
  "destroy (destroy demoWithPopup) = destroy demoWithPopup
   \<and> destroyed (destroy demoWithPopup)
   \<and> effects (destroy demoWithPopup) = effects demoWithPopup @ [RemoveEventListener, PopupClose 7]
   \<and> readyPromise (destroy demoInitial) = Rejected ''Embed widget was destroyed before ready''
   \<and> readyPromise (destroy demoWithPopup) = Resolved
   \<and> readyPromise (destroy (run demoConsts demoInitial [Message demoHost readyEvent, Destroy]))
       \<noteq> Pending"
proof -
  have a: "\<not> destroyed demoWithPopup" and b: "\<not> destroyed demoInitial" by simp_all
  note p = destroy_idempotent [of demoWithPopup] and i = destroy_idempotent [of demoInitial]
  have twice: "destroy (destroy demoWithPopup) = destroy demoWithPopup"
    and flag: "destroyed (destroy demoWithPopup)"
    using p by blast+
  have once: "destroy demoWithPopup =
      demoWithPopup\<lparr> destroyed := True, popup := None, popupPollIntervalId := None,
                       readyPromise := Resolved, closedWindows := {7},
                       effects := effects demoWithPopup @ [RemoveEventListener, PopupClose 7] \<rparr>"
    using p a by simp
  have init: "destroy demoInitial =
      demoInitial\<lparr> destroyed := True, popup := None, popupPollIntervalId := None,
                     readyPromise := Rejected ''Embed widget was destroyed before ready'',
                     closedWindows := {},
                     effects := effects demoInitial @ [RemoveEventListener] \<rparr>"
    using i b by simp
  have "effects (destroy demoWithPopup) = effects demoWithPopup @ [RemoveEventListener, PopupClose 7]"
    and "readyPromise (destroy demoInitial) = Rejected ''Embed widget was destroyed before ready''"
    and "readyPromise (destroy demoWithPopup) = Resolved"
    unfolding once init by simp_all
  moreover have "readyPromise (destroy (run demoConsts demoInitial [Message demoHost readyEvent, Destroy]))
       \<noteq> Pending"
    using p unfolding demoConsts_def demoInitial_def Let_def by blast
  ultimately show ?thesis using twice flag by blast
qed

section \<open>A blocked popup\<close>

text \<open>
  Claim C8, amended. When a popup-open request passes the router and \<^verbatim>\<open>window.open\<close> is
  refused, the bridge invokes the error callback exactly once, leaves no poll running, and
  treats no window as its popup afterwards (it holds no reference if it held none before).
  It posts the \<^verbatim>\<open>venyu:auth:popup-result\<close> message with an empty result token and the error
  \<^verbatim>\<open>popup_blocked\<close> to the frame when the frame's \<^verbatim>\<open>contentWindow\<close> is available, and posts
  nothing when it is not.
\<close>

theorem popup_blocked_reported:
  assumes "acceptedFromFrame c st h ev"
    and "validateIncomingMessage (ev_data ev) = Some m"
    and "msg_type m = ''venyu:auth:open-popup''"
    and "handshakeComplete st" and "nonce st = Some (msg_nonce m)"
    and "URL_origin h (playUrl c @ ''/embed/auth/popup'') = Some u"
    and "window_open h = None"
  shows "let s' = handleMessage c h ev st in
     effects s' = effects st
        @ (case popup st of None \<Rightarrow> []
           | Some p \<Rightarrow> if p \<in> closedWindows st then [] else [PopupClose p])
        @ [WindowOpen (playUrl c @ ''/embed/auth/popup'')
              [(''parentOrigin'', location_origin h), (''nonce'', msg_nonce m),
               (''embedSessionId'', embedSessionId c)]
              ''venyu-auth'' (getPopupFeatures h)]
        @ (case contentWindow h of
             None \<Rightarrow> []
           | Some w \<Rightarrow>
              [PostMessage w
                 \<lparr> msg_type = ''venyu:auth:popup-result'', msg_version = PROTOCOL_VERSION,
                   msg_requestId = generateRequestId h, msg_timestamp = Date_now h,
                   msg_nonce = msg_nonce m,
                   msg_payload = JObj [(''resultToken'', JStr ''''),
                                       (''error'', JStr ''popup_blocked'')] \<rparr>
                 (expectedOrigin c)])
        @ [OnError ''Auth popup was blocked by the browser'']
     \<and> popupPollIntervalId s' = None
     \<and> (popup st = None \<longrightarrow> popup s' = None)
     \<and> (\<forall>ev'. \<not> isFromPopup s' ev')"
proof -
  have nonempty: "msg_nonce m \<noteq> []"
    using assms(2) by (rule validated_nonce_nonempty)
  have nd: "\<not> destroyed st"
    using assms(1) by (simp add: acceptedFromFrame_def)
  have "handleMessage c h ev st = routeByType c h m st"
    using assms(1-5) by (auto simp: handleMessage_def acceptedFromFrame_def)
  also have "\<dots> = openAuthPopup c h st"
    using assms(3) by (simp add: routeByType_def)
  finally have eq: "handleMessage c h ev st = openAuthPopup c h st" .
  note blocked = openAuthPopup_blocked [OF nd assms(5) nonempty assms(6) assms(7)]
  have fp: "\<forall>ev'. \<not> isFromPopup (handleMessage c h ev st) ev'"
  proof
    fix ev'
    have "isFromPopup (handleMessage c h ev st) ev' = isFromPopup (closeOpenPopup (clearPopupPoll st)) ev'"
      unfolding eq blocked by (rule isFromPopup_cong) simp_all
    then show "\<not> isFromPopup (handleMessage c h ev st) ev'"
      by (simp add: closeOpenPopup_not_from_popup)
  qed
  have cw: "closedWindows (clearPopupPoll st) = closedWindows st"
    and pp: "popup (clearPopupPoll st) = popup st"
    by simp_all
  have ef: "effects (closeOpenPopup (clearPopupPoll st)) = effects st
        @ (case popup st of None \<Rightarrow> []
           | Some p \<Rightarrow> if p \<in> closedWindows st then [] else [PopupClose p])"
    unfolding closeOpenPopup_effects cw pp by simp
  have poll: "popupPollIntervalId (handleMessage c h ev st) = None"
    and keep: "popup st = None \<longrightarrow> popup (handleMessage c h ev st) = None"
    by (simp_all add: eq blocked)
  show ?thesis
    unfolding Let_def
    using fp poll keep by (simp add: eq blocked ef)
qed

text \<open>The scenario of the specification: the popup is blocked right after the handshake.\<close>

theorem popup_blocked_reported_witness:
  "acceptedFromFrame demoConsts demoReady demoHost openPopupEvent
   \<and> window_open demoHost = None
   \<and> effects (handleMessage demoConsts demoHost openPopupEvent demoReady)
       = effects demoReady
         @ [popupWindowOpen, PostMessage 1 blockedMessage ''https://play.venyu.ch'',
            OnError ''Auth popup was blocked by the browser'']
   \<and> popup (handleMessage demoConsts demoHost openPopupEvent demoReady) = None
   \<and> popupPollIntervalId (handleMessage demoConsts demoHost openPopupEvent demoReady) = None"
proof -
  have a: "acceptedFromFrame demoConsts demoReady demoHost openPopupEvent"
    by (simp add: acceptedFromFrame_def isFromIframe_def isFromPopup_def)
  have v: "validateIncomingMessage (ev_data openPopupEvent) = Some openPopupMessage" by simp
  have t: "msg_type openPopupMessage = ''venyu:auth:open-popup''" by simp
  have hc: "handshakeComplete demoReady" by simp
  have n: "nonce demoReady = Some (msg_nonce openPopupMessage)" by simp
  have u: "URL_origin demoHost (playUrl demoConsts @ ''/embed/auth/popup'') = Some ''https://play.venyu.ch''"
    by simp
  have w: "window_open demoHost = None" by simp
  note inst = popup_blocked_reported [OF a v t hc n u w]
  have e: "effects (handleMessage demoConsts demoHost openPopupEvent demoReady)
       = effects demoReady
         @ [popupWindowOpen, PostMessage 1 blockedMessage ''https://play.venyu.ch'',
            OnError ''Auth popup was blocked by the browser'']"
    and p: "popup (handleMessage demoConsts demoHost openPopupEvent demoReady) = None"
    and q: "popupPollIntervalId (handleMessage demoConsts demoHost openPopupEvent demoReady) = None"
    using inst
    by (simp_all add: Let_def popupWindowOpen_def blockedMessage_def PROTOCOL_VERSION_def)
  from a w e p q show ?thesis by blast
qed

text \<open>
  Claim C8 as stated fails when the frame's \<^verbatim>\<open>contentWindow\<close> is unavailable: after a
  handshake attempted on a detached frame, a blocked popup-open request reports the error to
  the consumer but posts nothing to the frame.
\<close>

theorem popup_blocked_counterexample:
  "window_open detachedHost = None
   \<and> effects (run demoConsts demoInitial
        [Message detachedHost (fromNowhere (wire ''venyu:ready'' ''abc'' (JObj []))),
         Message detachedHost (fromNowhere (wire ''venyu:auth:open-popup'' ''abc'' (JObj [])))])
     = [AddEventListener, OnError ''Iframe contentWindow is not available'',
        popupWindowOpen, OnError ''Auth popup was blocked by the browser'']"
  using validate_wire [of "''ready''" "CHR ''a''" "''bc''" "[]"]
  by (simp add: handleMessage_def isFromIframe_def isFromPopup_def handleReadyMessage_def
      rejectReady_def routeByType_def openAuthPopup_def closeOpenPopup_def clearPopupPoll_def
      sendToIframe_def popupSearchParams_def popupWindowOpen_def emit_def Let_def)

text \<open>
  When a popup was opened before, a later blocked request closes it and stops its poll, but
  \<^verbatim>\<open>state.popup\<close> still holds the closed window.
\<close>

lemma blocked_reopen_keeps_closed_reference:
  "popup (run demoConsts demoInitial
        [Message demoHost readyEvent, Message popupHost openPopupEvent,
         Message demoHost openPopupEvent]) = Some 7
   \<and> closedWindows (run demoConsts demoInitial
        [Message demoHost readyEvent, Message popupHost openPopupEvent,
         Message demoHost openPopupEvent]) = {7}
   \<and> popupPollIntervalId (run demoConsts demoInitial
        [Message demoHost readyEvent, Message popupHost openPopupEvent,
         Message demoHost openPopupEvent]) = None"
  by (simp add: handleMessage_def isFromIframe_def isFromPopup_def handleReadyMessage_def
      resolveReady_def routeByType_def openAuthPopup_def closeOpenPopup_def clearPopupPoll_def
      sendToIframe_def popupSearchParams_def emit_def Let_def popupHost_def demoHost_def)

section \<open>The resize reactor\<close>

text \<open>A resize message hands the payload's height to the reactor, whatever its type.\<close>

lemma routeByType_resize_any:
  "msg_type m = ''venyu:resize'' \<Longrightarrow>
     routeByType c h m st = handleResize (getProp (msg_payload m) ''height'') st"
  by (simp add: routeByType_def handleResize_def split: jsval.splits)

text \<open>
  Claim C9, amended. For every height value passed to the resize reactor: if the bridge is
  destroyed or the value is not a finite non-negative number, the frame's height is left as
  it was; otherwise it is set to the ceiling of the value, in pixels. The router passes the
  payload's height of every resize message to the reactor. (For NaN and for positive
  infinity the guards of the reactor let the assignment run, and it is the host's setter
  that keeps the prior height.)
\<close>

theorem resize_sets_finite_heights:
  "handleResize height st =
     (if destroyed st \<or> \<not> finiteNonNegativeNumber height then st
      else case height of
        JNum n \<Rightarrow> st\<lparr>iframe_style_height := Px (Math_ceil n)\<rparr>
      | _ \<Rightarrow> st)
   \<and> (msg_type m = ''venyu:resize'' \<longrightarrow>
        routeByType c h m st = handleResize (getProp (msg_payload m) ''height'') st)"
proof -
  have "handleResize height st =
     (if destroyed st \<or> \<not> finiteNonNegativeNumber height then st
      else case height of
        JNum n \<Rightarrow> st\<lparr>iframe_style_height := Px (Math_ceil n)\<rparr>
      | _ \<Rightarrow> st)"
  proof (cases height)
    case (JNum n)
    then show ?thesis
      by (cases n)
         (auto simp: handleResize_def set_style_height_px_def validHeightPx_def
            finiteNonNegativeNumber_def)
  qed (simp_all add: handleResize_def finiteNonNegativeNumber_def)
  then show ?thesis
    by (simp add: routeByType_resize_any)
qed

text \<open>
  A height of 120.5 gives 121 pixels; a negative height, NaN, a string and a destroyed
  bridge leave the height as it was.
\<close>

theorem resize_sets_finite_heights_witness:
  "handleResize (JNum (Finite (241 / 2))) demoReady = demoReady\<lparr>iframe_style_height := Px (Finite 121)\<rparr>
   \<and> handleResize (JNum (Finite (- 1))) demoReady = demoReady
   \<and> handleResize (JNum NaN) demoReady = demoReady
   \<and> handleResize (JStr ''120'') demoReady = demoReady
   \<and> handleResize (JNum (Finite 300)) (destroy demoReady) = destroy demoReady"
proof -
  have d: "destroyed (destroy demoReady)" by (simp add: destroy_def)
  have c: "\<lceil>241 / 2 :: real\<rceil> = 121" by simp
  have "handleResize (JNum (Finite (241 / 2))) demoReady
          = demoReady\<lparr>iframe_style_height := Px (Finite 121)\<rparr>"
    using resize_sets_finite_heights [of "JNum (Finite (241 / 2))" demoReady]
    by (simp add: finiteNonNegativeNumber_def c)
  moreover have "handleResize (JNum (Finite (- 1))) demoReady = demoReady"
    using resize_sets_finite_heights [of "JNum (Finite (- 1))" demoReady]
    by (simp add: finiteNonNegativeNumber_def)
  moreover have "handleResize (JNum NaN) demoReady = demoReady"
    using resize_sets_finite_heights [of "JNum NaN" demoReady]
    by (simp add: finiteNonNegativeNumber_def)
  moreover have "handleResize (JStr ''120'') demoReady = demoReady"
    using resize_sets_finite_heights [of "JStr ''120''" demoReady]
    by (simp add: finiteNonNegativeNumber_def)
  moreover have "handleResize (JNum (Finite 300)) (destroy demoReady) = destroy demoReady"
    using resize_sets_finite_heights [of "JNum (Finite 300)" "destroy demoReady"] d
    by simp
  ultimately show ?thesis by blast
qed

text \<open>
  Claim C9 as stated fails at positive infinity: it is a non-negative number and the
  bridge is not destroyed, yet the frame's height keeps its prior value instead of being set
  to the ceiling of the value.
\<close>

theorem resize_infinity_counterexample:
  "nonNegativeNumber (JNum PosInf)
   \<and> \<not> destroyed demoReady
   \<and> acceptedFromFrame demoConsts demoReady demoHost resizeInfinityEvent
   \<and> iframe_style_height demoReady = CssText ''0px''
   \<and> handleResize (JNum PosInf) demoReady = demoReady
   \<and> handleMessage demoConsts demoHost resizeInfinityEvent demoReady = demoReady"
  using validate_wire [of "''resize''" "CHR ''a''" "''bc''" "[(''height'', JNum PosInf)]"]
  by (simp add: nonNegativeNumber_def acceptedFromFrame_def isFromIframe_def isFromPopup_def
      resizeInfinityEvent_def fromFrame_def handleMessage_def routeByType_def handleResize_def
      set_style_height_px_def validHeightPx_def)

section \<open>A handshake on a detached frame\<close>

text \<open>
  Claim C10. If the first ready signal is accepted while the frame's \<^verbatim>\<open>contentWindow\<close> is
  unavailable, the bridge invokes the error callback and rejects the readiness promise,
  having already set \<^verbatim>\<open>handshakeComplete\<close> and captured the nonce. From then on, whatever
  happens to the bridge, the readiness promise never resolves, every ready signal is
  dropped, and a frame message bearing the captured nonce passes the gate to the dispatch.
\<close>

theorem detached_ready_fails_handshake:
  assumes "acceptedFromFrame c st h ev"
    and "validateIncomingMessage (ev_data ev) = Some m"
    and "msg_type m = ''venyu:ready''"
    and "\<not> handshakeComplete st"
    and "readyPromise st = Pending"
    and "contentWindow h = None"
  shows "let s1 = handleMessage c h ev st in
     s1 = st\<lparr> nonce := Some (msg_nonce m), handshakeComplete := True,
               readyPromise := Rejected ''Iframe contentWindow is not available'',
               effects := effects st @ [OnError ''Iframe contentWindow is not available''] \<rparr>
     \<and> (\<forall>ins. readyPromise (run c s1 ins) \<noteq> Resolved)
     \<and> (\<forall>ins h' ev'. readySignal (ev_data ev') \<longrightarrow>
            handleMessage c h' ev' (run c s1 ins) = run c s1 ins)
     \<and> (\<forall>ins h' ev' m'.
            acceptedFromFrame c (run c s1 ins) h' ev'
            \<and> validateIncomingMessage (ev_data ev') = Some m'
            \<and> msg_type m' \<noteq> ''venyu:ready'' \<and> msg_nonce m' = msg_nonce m \<longrightarrow>
            handleMessage c h' ev' (run c s1 ins) = routeByType c h' m' (run c s1 ins))"
proof -
  define s1 where "s1 = handleMessage c h ev st"
  have eq: "s1 = st\<lparr> nonce := Some (msg_nonce m), handshakeComplete := True,
               readyPromise := Rejected ''Iframe contentWindow is not available'',
               effects := effects st @ [OnError ''Iframe contentWindow is not available''] \<rparr>"
    unfolding s1_def handleMessage_first_ready [OF assms(1-4)]
    using assms(5,6) by (simp add: rejectReady_def emit_def)
  have hc: "handshakeComplete s1" and nn: "nonce s1 = Some (msg_nonce m)"
    and rp: "readyPromise s1 \<noteq> Resolved"
    unfolding eq by simp_all
  note inv = run_after_handshake [OF hc, of c]
  have never: "\<forall>ins. readyPromise (run c s1 ins) \<noteq> Resolved"
    using inv rp by blast
  have dropped: "\<forall>ins h' ev'. readySignal (ev_data ev') \<longrightarrow>
            handleMessage c h' ev' (run c s1 ins) = run c s1 ins"
    using inv late_ready_dropped by blast
  have gate: "\<forall>ins h' ev' m'.
            acceptedFromFrame c (run c s1 ins) h' ev'
            \<and> validateIncomingMessage (ev_data ev') = Some m'
            \<and> msg_type m' \<noteq> ''venyu:ready'' \<and> msg_nonce m' = msg_nonce m \<longrightarrow>
            handleMessage c h' ev' (run c s1 ins) = routeByType c h' m' (run c s1 ins)"
  proof (intro allI impI)
    fix ins h' ev' m'
    assume a: "acceptedFromFrame c (run c s1 ins) h' ev'
            \<and> validateIncomingMessage (ev_data ev') = Some m'
            \<and> msg_type m' \<noteq> ''venyu:ready'' \<and> msg_nonce m' = msg_nonce m"
    have "handshakeComplete (run c s1 ins)" and "nonce (run c s1 ins) = Some (msg_nonce m')"
      using inv [of ins] nn a by simp_all
    with a show "handleMessage c h' ev' (run c s1 ins) = routeByType c h' m' (run c s1 ins)"
      by (auto simp: handleMessage_def acceptedFromFrame_def)
  qed
  from eq never dropped gate show ?thesis
    unfolding s1_def [symmetric] Let_def by blast
qed

theorem detached_ready_fails_handshake_witness:
  "acceptedFromFrame demoConsts demoInitial detachedHost (fromNowhere (wire ''venyu:ready'' ''abc'' (JObj [])))
   \<and> contentWindow detachedHost = None
   \<and> handleMessage demoConsts detachedHost (fromNowhere (wire ''venyu:ready'' ''abc'' (JObj []))) demoInitial
      = detachedReady
   \<and> readyPromise (run demoConsts detachedReady [Message demoHost readyEvent]) \<noteq> Resolved
   \<and> handleMessage demoConsts demoHost readyEvent detachedReady = detachedReady
   \<and> handleMessage demoConsts demoHost bookedEvent detachedReady
      = routeByType demoConsts demoHost bookedMessage detachedReady"
proof -
  let ?ev = "fromNowhere (wire ''venyu:ready'' ''abc'' (JObj []))"
  have a: "acceptedFromFrame demoConsts demoInitial detachedHost ?ev"
    by (simp add: acceptedFromFrame_def isFromIframe_def isFromPopup_def)
  have v: "validateIncomingMessage (ev_data ?ev) = Some readyMessage"
    using validate_wire [of "''ready''" "CHR ''a''" "''bc''" "[]"] by (simp add: readyMessage_def)
  have t: "msg_type readyMessage = ''venyu:ready''" by simp
  have n: "\<not> handshakeComplete demoInitial" by simp
  have p: "readyPromise demoInitial = Pending" by simp
  have d: "contentWindow detachedHost = None" by simp
  note inst = detached_ready_fails_handshake [OF a v t n p d]
  have s1: "handleMessage demoConsts detachedHost ?ev demoInitial = detachedReady"
    using inst by (simp add: Let_def detachedReady_def)
  note rest = inst [unfolded Let_def s1]
  have never: "readyPromise (run demoConsts detachedReady [Message demoHost readyEvent]) \<noteq> Resolved"
    using rest by blast
  have r: "readySignal (ev_data readyEvent)" by (simp add: readySignal_def)
  have drop: "handleMessage demoConsts demoHost readyEvent (run demoConsts detachedReady []) 
                = run demoConsts detachedReady []"
    using rest r by blast
  have b: "acceptedFromFrame demoConsts (run demoConsts detachedReady []) demoHost bookedEvent
            \<and> validateIncomingMessage (ev_data bookedEvent) = Some bookedMessage
            \<and> msg_type bookedMessage \<noteq> ''venyu:ready'' \<and> msg_nonce bookedMessage = msg_nonce readyMessage"
    by (simp add: acceptedFromFrame_def isFromIframe_def isFromPopup_def detachedReady_def)
  have pass: "handleMessage demoConsts demoHost bookedEvent (run demoConsts detachedReady [])
      = routeByType demoConsts demoHost bookedMessage (run demoConsts detachedReady [])"
    using rest b by blast
  from a d s1 never drop pass show ?thesis by simp
qed

end
